theory Spec2Isabelle
  imports Main "HOL-Library.Word" "HOL-Library.AList"
begin

unbundle bit_operations_syntax

section \<open>Data model of package cluster\<close>

text \<open>
  The structs of \<^verbatim>\<open>cluster/cluster.go\<close> are records. Go's \<^verbatim>\<open>int\<close> is modelled by
  \<^typ>\<open>int\<close>: the code compares and copies these numbers and never does arithmetic on
  them, apart from the attempt counter of the executor (see there). A Go \<^verbatim>\<open>string\<close> is a
  \<^typ>\<open>string\<close> of bytes.
\<close>

record SegConfig =
  DbID :: int
  ContentID :: int
  Role :: string
  PreferredRole :: string
  Mode :: string
  Status :: string
  Port :: int
  Hostname :: string
  Address :: string
  DataDir :: string

text \<open>
  \<^verbatim>\<open>type Scope uint8\<close> with its ten constants; the four zero-valued ones are the defaults
  of the four axes.
\<close>

type_synonym Scope = "8 word"

definition ON_SEGMENTS :: Scope where "ON_SEGMENTS = 0"
definition ON_HOSTS :: Scope where "ON_HOSTS = 1"
definition EXCLUDE_COORDINATOR :: Scope where "EXCLUDE_COORDINATOR = 0"
definition INCLUDE_COORDINATOR :: Scope where "INCLUDE_COORDINATOR = push_bit 1 1"
definition EXCLUDE_MASTER :: Scope where "EXCLUDE_MASTER = 0"
definition INCLUDE_MASTER :: Scope where "INCLUDE_MASTER = push_bit 1 1"
definition ON_REMOTE :: Scope where "ON_REMOTE = 0"
definition ON_LOCAL :: Scope where "ON_LOCAL = push_bit 2 1"
definition EXCLUDE_MIRRORS :: Scope where "EXCLUDE_MIRRORS = 0"
definition INCLUDE_MIRRORS :: Scope where "INCLUDE_MIRRORS = push_bit 3 1"

definition scopeIsSegments :: "Scope \<Rightarrow> bool" where
  "scopeIsSegments scope = (scope AND ON_HOSTS = ON_SEGMENTS)"

definition scopeIsHosts :: "Scope \<Rightarrow> bool" where
  "scopeIsHosts scope = (scope AND ON_HOSTS = ON_HOSTS)"

definition scopeExcludesCoordinator :: "Scope \<Rightarrow> bool" where
  "scopeExcludesCoordinator scope = (scope AND INCLUDE_COORDINATOR = EXCLUDE_COORDINATOR)"

definition scopeIncludesCoordinator :: "Scope \<Rightarrow> bool" where
  "scopeIncludesCoordinator scope = (scope AND INCLUDE_COORDINATOR = INCLUDE_COORDINATOR)"

definition scopeIsRemote :: "Scope \<Rightarrow> bool" where
  "scopeIsRemote scope = (scope AND ON_LOCAL = ON_REMOTE)"

definition scopeIsLocal :: "Scope \<Rightarrow> bool" where
  "scopeIsLocal scope = (scope AND ON_LOCAL = ON_LOCAL)"

definition scopeExcludesMirrors :: "Scope \<Rightarrow> bool" where
  "scopeExcludesMirrors scope = (scope AND INCLUDE_MIRRORS = EXCLUDE_MIRRORS)"

definition scopeIncludesMirrors :: "Scope \<Rightarrow> bool" where
  "scopeIncludesMirrors scope = (scope AND INCLUDE_MIRRORS = INCLUDE_MIRRORS)"

text \<open>
  Go \<^verbatim>\<open>error\<close> values. The executor builds them in three ways: the error of one process
  invocation (\<^verbatim>\<open>cmd.Output()\<close>), the wrapper
  \<^verbatim>\<open>fmt.Errorf("attempt %d: error was %w: %s", attempt, err, stderr)\<close>, and
  \<^verbatim>\<open>errors.Join\<close>. A \<^verbatim>\<open>nil\<close> error is \<^term>\<open>None\<close>.
\<close>

datatype goerror =
  ExecError string
  | AttemptError int goerror string
  | JoinError "goerror list"

text \<open>
  \<^verbatim>\<open>errors.Join\<close> of the standard library: nil arguments are dropped, the result is nil
  when nothing is left, and otherwise one join error holding the remaining errors in
  order (an argument that is itself a join error is kept as one element).
\<close>

definition Join :: "goerror option list \<Rightarrow> goerror option" where
  "Join errs =
     (case List.map_filter id errs of
        [] \<Rightarrow> None
      | e # es \<Rightarrow> Some (JoinError (e # es)))"

text \<open>
  A \<^verbatim>\<open>ShellCommand\<close>. The field \<^verbatim>\<open>Command *exec.Cmd\<close> is represented by the argument
  vector \<^verbatim>\<open>Args\<close> of the command, which is all the code reads of it.
\<close>

record ShellCommand =
  Scope :: Scope
  Content :: int
  Host :: string
  Command :: "string list"
  CommandString :: string
  Stdout :: string
  Stderr :: string
  Error :: "goerror option"
  RetryError :: "goerror option"
  Completed :: bool

record RemoteOutput =
  OutputScope :: Scope
  NumErrors :: int
  Commands :: "ShellCommand list"
  FailedCommands :: "ShellCommand list"
  RetriedCommands :: "ShellCommand list"

text \<open>
  A \<^verbatim>\<open>Cluster\<close>. The two Go maps are association lists with distinct keys; their
  values are the records the Go pointers point to (the code never writes through these
  pointers). The embedded \<^verbatim>\<open>Executor\<close> is not a field of the model: the executor's
  functions are defined below and take the command list directly.
\<close>

record Cluster =
  ContentIDs :: "int list"
  Hostnames :: "string list"
  Segments :: "SegConfig list"
  ByContent :: "(int \<times> SegConfig list) list"
  ByHost :: "(string \<times> SegConfig list) list"

text \<open>Reading a Go map of slices: a missing key reads as the nil (empty) slice.\<close>

definition lookupList :: "('k \<times> 'v list) list \<Rightarrow> 'k \<Rightarrow> 'v list" where
  "lookupList m k = (case map_of m k of None \<Rightarrow> [] | Some vs \<Rightarrow> vs)"

section \<open>NewRemoteOutput\<close>

text \<open>The loop body of \<^verbatim>\<open>NewRemoteOutput\<close>, on the pair of lists it appends to.\<close>

definition classifyCommand ::
  "ShellCommand list \<times> ShellCommand list \<Rightarrow> ShellCommand \<Rightarrow> ShellCommand list \<times> ShellCommand list" where
  "classifyCommand acc command =
     (case acc of (failedCommands, retriedCommands) \<Rightarrow>
        if Error command \<noteq> None then (failedCommands @ [command], retriedCommands)
        else if RetryError command \<noteq> None then (failedCommands, retriedCommands @ [command])
        else (failedCommands, retriedCommands))"

definition NewRemoteOutput :: "Scope \<Rightarrow> int \<Rightarrow> ShellCommand list \<Rightarrow> RemoteOutput" where
  "NewRemoteOutput scope numErrors commands =
     (case foldl classifyCommand ([], []) commands of (failedCommands, retriedCommands) \<Rightarrow>
        \<lparr>OutputScope = scope, NumErrors = numErrors, Commands = commands,
         FailedCommands = failedCommands, RetriedCommands = retriedCommands\<rparr>)"

section \<open>NewCluster and the lookups by content id\<close>

text \<open>
  Lines 242 to 251 of \<^verbatim>\<open>NewCluster\<close>: the record is appended to the list of its content
  id, and when that list now has two entries of which the first is a mirror, the two
  are swapped.
\<close>

definition appendToContent :: "SegConfig list \<Rightarrow> SegConfig \<Rightarrow> SegConfig list" where
  "appendToContent old segment =
     (let segmentList = old @ [segment]
      in if length segmentList = 2 \<and> Role (segmentList ! 0) = ''m''
         then [segmentList ! 1, segmentList ! 0]
         else segmentList)"

definition addSegment :: "Cluster \<Rightarrow> SegConfig \<Rightarrow> Cluster" where
  "addSegment cluster segment =
     (let byContent = AList.update (ContentID segment)
            (appendToContent (lookupList (ByContent cluster) (ContentID segment)) segment)
            (ByContent cluster);
          hostList = lookupList (ByHost cluster) (Hostname segment) @ [segment];
          byHost = AList.update (Hostname segment) hostList (ByHost cluster);
          hostnames = (if length hostList = 1 then Hostnames cluster @ [Hostname segment]
                       else Hostnames cluster)
      in cluster\<lparr>ByContent := byContent, ByHost := byHost, Hostnames := hostnames\<rparr>)"

text \<open>
  The keys of \<^verbatim>\<open>ByContent\<close> are collected in the map's iteration order and then sorted by
  \<^verbatim>\<open>sort.Ints\<close>, so the order of collection does not show in the result.
\<close>

definition NewCluster :: "SegConfig list \<Rightarrow> Cluster" where
  "NewCluster segConfigs =
     (let cluster = foldl addSegment
            \<lparr>ContentIDs = [], Hostnames = [], Segments = segConfigs, ByContent = [], ByHost = []\<rparr>
            segConfigs
      in cluster\<lparr>ContentIDs := sort (map fst (ByContent cluster))\<rparr>)"

text \<open>
  The variadic \<^verbatim>\<open>role ...string\<close> is the list of the arguments passed; \<^verbatim>\<open>nil\<close> is
  \<^term>\<open>None\<close>.
\<close>

definition getSegmentByRole :: "SegConfig list \<Rightarrow> string list \<Rightarrow> SegConfig option" where
  "getSegmentByRole segmentList role =
     (if length role = 1 \<and> role ! 0 = ''m''
      then (if length segmentList < 2 then None else Some (segmentList ! 1))
      else if length segmentList = 0 then None
      else Some (segmentList ! 0))"

definition GetDbidForContent :: "Cluster \<Rightarrow> int \<Rightarrow> string list \<Rightarrow> int" where
  "GetDbidForContent cluster contentID role =
     (case getSegmentByRole (lookupList (ByContent cluster) contentID) role of
        None \<Rightarrow> - 1 | Some segConfig \<Rightarrow> DbID segConfig)"

definition GetPortForContent :: "Cluster \<Rightarrow> int \<Rightarrow> string list \<Rightarrow> int" where
  "GetPortForContent cluster contentID role =
     (case getSegmentByRole (lookupList (ByContent cluster) contentID) role of
        None \<Rightarrow> - 1 | Some segConfig \<Rightarrow> Port segConfig)"

definition GetHostForContent :: "Cluster \<Rightarrow> int \<Rightarrow> string list \<Rightarrow> string" where
  "GetHostForContent cluster contentID role =
     (case getSegmentByRole (lookupList (ByContent cluster) contentID) role of
        None \<Rightarrow> '''' | Some segConfig \<Rightarrow> Hostname segConfig)"

definition GetDirForContent :: "Cluster \<Rightarrow> int \<Rightarrow> string list \<Rightarrow> string" where
  "GetDirForContent cluster contentID role =
     (case getSegmentByRole (lookupList (ByContent cluster) contentID) role of
        None \<Rightarrow> '''' | Some segConfig \<Rightarrow> DataDir segConfig)"

definition GetContentsForHost :: "Cluster \<Rightarrow> string \<Rightarrow> int list" where
  "GetContentsForHost cluster hostname = map ContentID (lookupList (ByHost cluster) hostname)"

text \<open>The three-node cluster of the spec's scenario, and a command list for examples.\<close>

definition seg :: "int \<Rightarrow> int \<Rightarrow> string \<Rightarrow> string \<Rightarrow> SegConfig" where
  "seg dbid content role host =
     \<lparr>DbID = dbid, ContentID = content, Role = role, PreferredRole = role, Mode = ''s'',
      Status = ''u'', Port = 5432, Hostname = host, Address = host, DataDir = ''/data''\<rparr>"

definition threeNodes :: "SegConfig list" where
  "threeNodes = [seg 1 (- 1) ''p'' ''coord'', seg 2 (- 1) ''m'' ''standby'', seg 3 0 ''p'' ''seg1'']"

definition doneCommand :: "int \<Rightarrow> goerror option \<Rightarrow> goerror option \<Rightarrow> ShellCommand" where
  "doneCommand content err retryErr =
     \<lparr>Scope = 0, Content = content, Host = '''', Command = [''true''], CommandString = ''true'',
      Stdout = '''', Stderr = '''', Error = err, RetryError = retryErr, Completed = True\<rparr>"

section \<open>Command generation\<close>

text \<open>
  The ways the code stops the process: a fatal log call, and the runtime panic of an
  index that is out of range (\<^verbatim>\<open>command[0]\<close>, \<^verbatim>\<open>args[0]\<close> on an empty slice).
\<close>

datatype fatal = Fatal string | IndexOutOfRange

text \<open>
  Modelled from the spec: \<^verbatim>\<open>gplog.Fatal\<close>, of package \<^verbatim>\<open>gplog\<close>, is not among the source
  files. The spec says of the logging boundary that a fatal emission must terminate the
  process, so the call does not return and the caller's result is the fatal error.
\<close>

definition gplogFatal :: "string \<Rightarrow> fatal + 'a" where
  "gplogFatal message = Inl (Fatal message)"

text \<open>\<^verbatim>\<open>strings.Join\<close> of the standard library.\<close>

fun stringsJoin :: "string list \<Rightarrow> string \<Rightarrow> string" where
  "stringsJoin [] sep = []"
| "stringsJoin [x] sep = x"
| "stringsJoin (x # y # ys) sep = x @ sep @ stringsJoin (y # ys) sep"

text \<open>
  \<^verbatim>\<open>exec.Command(command[0], command[1:]...)\<close> builds a command whose \<^verbatim>\<open>Args\<close> are
  \<^verbatim>\<open>command\<close>; reading \<^verbatim>\<open>command[0]\<close> of an empty slice panics.
\<close>

definition NewShellCommand :: "Scope \<Rightarrow> int \<Rightarrow> string \<Rightarrow> string list \<Rightarrow> fatal + ShellCommand" where
  "NewShellCommand scope content host command =
     (case command of
        [] \<Rightarrow> Inl IndexOutOfRange
      | name # arg \<Rightarrow>
          Inr \<lparr>Scope = scope, Content = content, Host = host, Command = name # arg,
               CommandString = stringsJoin command '' '', Stdout = '''', Stderr = '''',
               Error = None, RetryError = None, Completed = False\<rparr>)"

text \<open>
  The \<^verbatim>\<open>generator interface{}\<close> argument, by the dynamic types the type switches of the
  code tell apart; \<open>OtherValue\<close> stands for a value of any other type.
\<close>

datatype generator =
  ContentArgv "int \<Rightarrow> string list"
  | HostArgv "string \<Rightarrow> string list"
  | ContentString "int \<Rightarrow> string"
  | HostString "string \<Rightarrow> string"
  | OtherValue

text \<open>The two loops of \<^verbatim>\<open>GenerateCommandList\<close>; \<open>commands\<close> is the slice appended to.\<close>

fun contentLoop ::
  "Scope \<Rightarrow> (int \<Rightarrow> string list) \<Rightarrow> int list \<Rightarrow> ShellCommand list \<Rightarrow> fatal + ShellCommand list" where
  "contentLoop scope generateCommand [] commands = Inr commands"
| "contentLoop scope generateCommand (content # rest) commands =
     (if content = - 1 \<and> scopeExcludesCoordinator scope
      then contentLoop scope generateCommand rest commands
      else case NewShellCommand scope content '''' (generateCommand content) of
             Inl e \<Rightarrow> Inl e
           | Inr command \<Rightarrow> contentLoop scope generateCommand rest (commands @ [command]))"

fun hostLoop ::
  "Cluster \<Rightarrow> Scope \<Rightarrow> (string \<Rightarrow> string list) \<Rightarrow> string list \<Rightarrow> ShellCommand list
     \<Rightarrow> fatal + ShellCommand list" where
  "hostLoop cluster scope generateCommand [] commands = Inr commands"
| "hostLoop cluster scope generateCommand (host # rest) commands =
     (let hostHasOneContent = (length (GetContentsForHost cluster host) = 1)
      in if host = GetHostForContent cluster (- 1) [''p''] \<and> scopeExcludesCoordinator scope
            \<and> hostHasOneContent
         then hostLoop cluster scope generateCommand rest commands
         else if host = GetHostForContent cluster (- 1) [''m''] \<and> scopeExcludesMirrors scope
            \<and> hostHasOneContent
         then hostLoop cluster scope generateCommand rest commands
         else case NewShellCommand scope (- 2) host (generateCommand host) of
                Inl e \<Rightarrow> Inl e
              | Inr command \<Rightarrow> hostLoop cluster scope generateCommand rest (commands @ [command]))"

definition GenerateCommandList :: "Cluster \<Rightarrow> Scope \<Rightarrow> generator \<Rightarrow> fatal + ShellCommand list" where
  "GenerateCommandList cluster scope generator =
     (case generator of
        ContentArgv generateCommand \<Rightarrow>
          contentLoop scope generateCommand (ContentIDs cluster) []
      | HostArgv generateCommand \<Rightarrow>
          hostLoop cluster scope generateCommand (Hostnames cluster) []
      | _ \<Rightarrow>
          gplogFatal
            ''Generator function passed to GenerateCommandList had an invalid function header.'')"

text \<open>
  \<^verbatim>\<open>ConstructSSHCommand\<close>. The name of the current user comes from
  \<^verbatim>\<open>operating.System.CurrentUser()\<close>, which is outside the source files; it is the
  parameter \<open>user\<close>.
\<close>

definition ConstructSSHCommand :: "string \<Rightarrow> bool \<Rightarrow> string \<Rightarrow> string \<Rightarrow> string list" where
  "ConstructSSHCommand user useLocal host cmd =
     (if useLocal then [''bash'', ''-c'', cmd]
      else [''ssh'', ''-o'', ''StrictHostKeyChecking=no'', user @ ''@'' @ host, cmd])"

text \<open>
  \<^verbatim>\<open>GenerateSSHCommandList\<close>. Its type switch has two cases and no default: for any other
  generator \<^verbatim>\<open>commands\<close> keeps its zero value, the nil slice, which is returned.
\<close>

definition GenerateSSHCommandList ::
  "string \<Rightarrow> Cluster \<Rightarrow> Scope \<Rightarrow> generator \<Rightarrow> fatal + ShellCommand list" where
  "GenerateSSHCommandList user cluster scope generator =
     (let localHost = GetHostForContent cluster (- 1) []
      in case generator of
           ContentString generateCommand \<Rightarrow>
             GenerateCommandList cluster scope
               (ContentArgv (\<lambda>content.
                  let useLocal = (GetHostForContent cluster content [] = localHost
                                  \<or> scopeIsLocal scope);
                      cmd = generateCommand content
                  in ConstructSSHCommand user useLocal (GetHostForContent cluster content []) cmd))
         | HostString generateCommand \<Rightarrow>
             GenerateCommandList cluster scope
               (HostArgv (\<lambda>host.
                  let useLocal = (host = localHost \<or> scopeIsLocal scope);
                      cmd = generateCommand host
                  in ConstructSSHCommand user useLocal host cmd))
         | _ \<Rightarrow> Inr [])"

text \<open>
  The condition under which the host loop of \<^verbatim>\<open>GenerateCommandList\<close> passes over a host
  (either of its two \<^verbatim>\<open>continue\<close> statements), named for use in the statements below.
\<close>

definition hostSkipped :: "Cluster \<Rightarrow> Scope \<Rightarrow> string \<Rightarrow> bool" where
  "hostSkipped cluster scope host =
     ((host = GetHostForContent cluster (- 1) [''p''] \<and> scopeExcludesCoordinator scope
       \<or> host = GetHostForContent cluster (- 1) [''m''] \<and> scopeExcludesMirrors scope)
      \<and> length (GetContentsForHost cluster host) = 1)"

section \<open>The executor\<close>

text \<open>
  What one invocation of a command (\<^verbatim>\<open>cmd.Output()\<close> with \<^verbatim>\<open>cmd.Stderr = &stderr\<close>)
  yields: the bytes of standard output, the error or nil, and the text standard error
  was given. The outcome of the process is not decided by the code, so each command
  comes with a function from the attempt number to the outcome of that attempt.
\<close>

record AttemptResult =
  resultOut :: string
  resultErr :: "goerror option"
  resultStderr :: string

text \<open>What a goroutine does that is visible outside it: process invocations and sleeps.\<close>

datatype event = Invoke int | Sleep int

text \<open>
  The variables of the goroutine that the retry loop changes: the copy \<^verbatim>\<open>command\<close> of the
  list entry, \<^verbatim>\<open>out\<close>, \<^verbatim>\<open>err\<close>, the buffer \<^verbatim>\<open>stderr\<close>, and the events so far.
\<close>

record retryState =
  loopCommand :: ShellCommand
  loopOut :: string
  loopErr :: "goerror option"
  loopStderr :: string
  loopTrace :: "event list"

text \<open>\<^verbatim>\<open>resetCmd\<close> reads \<^verbatim>\<open>args[0]\<close>, which panics on an empty argument vector.\<close>

definition resetCmd :: "string list \<Rightarrow> fatal + string list" where
  "resetCmd args = (case args of [] \<Rightarrow> Inl IndexOutOfRange | name # rest \<Rightarrow> Inr (name # rest))"

text \<open>
  The loop \<^verbatim>\<open>for attempt := 1; attempt <= maxAttempts; attempt++\<close>, from the value
  \<open>attempt\<close> of the counter on. The counter and \<open>maxAttempts\<close> are Go \<^verbatim>\<open>int\<close>s, 64-bit
  words compared as signed numbers, and \<^verbatim>\<open>attempt++\<close> wraps around: with
  \<open>maxAttempts = 2^63 - 1\<close> the condition holds for every value of the counter, and the
  loop goes on for as long as the attempts fail. A run that never leaves the loop has
  the value \<^term>\<open>None\<close>. The attempt number given to the process outcome, to the
  wrapped error and to the events is the signed value of the counter.
\<close>

partial_function (option) retryLoop ::
  "(int \<Rightarrow> AttemptResult) \<Rightarrow> 64 word \<Rightarrow> int \<Rightarrow> 64 word \<Rightarrow> retryState
     \<Rightarrow> (fatal + retryState) option" where
  "retryLoop run maxAttempts retrySleep attempt st =
     (if sint attempt \<le> sint maxAttempts then
        case resetCmd (Command (loopCommand st)) of
          Inl e \<Rightarrow> Some (Inl e)
        | Inr cmd \<Rightarrow>
            let r = run (sint attempt);
                st1 = st\<lparr>loopOut := resultOut r, loopErr := resultErr r,
                         loopStderr := resultStderr r,
                         loopTrace := loopTrace st @ [Invoke (sint attempt)]\<rparr>
            in case resultErr r of
                 None \<Rightarrow> Some (Inr st1)
               | Some e \<Rightarrow>
                   let newRetryErr = AttemptError (sint attempt) e (resultStderr r);
                       st2 = st1\<lparr>loopCommand := (loopCommand st1)
                                  \<lparr>RetryError := Join [RetryError (loopCommand st1), Some newRetryErr]\<rparr>,
                                loopTrace := (if attempt \<noteq> maxAttempts
                                              then loopTrace st1 @ [Sleep retrySleep]
                                              else loopTrace st1)\<rparr>
                   in retryLoop run maxAttempts retrySleep (attempt + 1) st2
      else Some (Inr st))"

text \<open>
  The body of one goroutine: the loop from attempt 1 with \<^verbatim>\<open>out\<close>, \<^verbatim>\<open>err\<close> and
  \<^verbatim>\<open>stderr\<close> at their zero values, then the four assignments to the command. The result
  is the command written back to its slot of the list, with the goroutine's events;
  \<^term>\<open>None\<close> when the goroutine never gets there.
\<close>

definition runCommand ::
  "(int \<Rightarrow> AttemptResult) \<Rightarrow> 64 word \<Rightarrow> int \<Rightarrow> ShellCommand
     \<Rightarrow> (fatal + ShellCommand \<times> event list) option" where
  "runCommand run maxAttempts retrySleep c =
     (case retryLoop run maxAttempts retrySleep 1
             \<lparr>loopCommand = c, loopOut = '''', loopErr = None, loopStderr = '''', loopTrace = []\<rparr> of
        None \<Rightarrow> None
      | Some (Inl e) \<Rightarrow> Some (Inl e)
      | Some (Inr st) \<Rightarrow>
          Some (Inr ((loopCommand st)\<lparr>Stdout := loopOut st, Stderr := loopStderr st,
                                      Error := loopErr st, Completed := True\<rparr>,
                     loopTrace st)))"

text \<open>
  The goroutines together, from what each of them does alone: a panic in any goroutine
  ends the process; otherwise the main goroutine, which receives one index from every
  goroutine, gets past its loop only when every goroutine has finished.
\<close>

fun collect :: "(fatal + 'a) option list \<Rightarrow> (fatal + 'a list) option" where
  "collect [] = Some (Inr [])"
| "collect (r # rs) =
     (case r of
        Some (Inl e) \<Rightarrow> Some (Inl e)
      | Some (Inr x) \<Rightarrow>
          (case collect rs of
             Some (Inl e) \<Rightarrow> Some (Inl e)
           | Some (Inr xs) \<Rightarrow> Some (Inr (x # xs))
           | None \<Rightarrow> None)
      | None \<Rightarrow>
          (case collect rs of
             Some (Inl e) \<Rightarrow> Some (Inl e)
           | Some (Inr xs) \<Rightarrow> None
           | None \<Rightarrow> None))"

text \<open>
  One goroutine per list index. A goroutine reads and writes only its own slot and its
  own variables, so the slots after all goroutines have finished do not depend on how
  they interleave. \<open>runs index\<close> gives the outcomes of the attempts of the command at
  \<open>index\<close>.
\<close>

definition runAll ::
  "(nat \<Rightarrow> int \<Rightarrow> AttemptResult) \<Rightarrow> 64 word \<Rightarrow> int \<Rightarrow> ShellCommand list
     \<Rightarrow> (fatal + (ShellCommand \<times> event list) list) option" where
  "runAll runs maxAttempts retrySleep commandList =
     collect (map (\<lambda>index. runCommand (runs index) maxAttempts retrySleep (commandList ! index))
                [0..<length commandList])"

text \<open>
  \<^verbatim>\<open>ExecuteClusterCommandWithRetries\<close>: the main goroutine receives every index once and
  counts the slots with a terminal error. The result is the report, with the events of
  each goroutine beside it; \<^term>\<open>None\<close> when the call never returns.
\<close>

definition ExecuteClusterCommandWithRetries ::
  "(nat \<Rightarrow> int \<Rightarrow> AttemptResult) \<Rightarrow> Scope \<Rightarrow> ShellCommand list \<Rightarrow> 64 word \<Rightarrow> int
     \<Rightarrow> (fatal + RemoteOutput \<times> event list list) option" where
  "ExecuteClusterCommandWithRetries runs scope commandList maxAttempts retrySleep =
     (case runAll runs maxAttempts retrySleep commandList of
        None \<Rightarrow> None
      | Some (Inl e) \<Rightarrow> Some (Inl e)
      | Some (Inr rs) \<Rightarrow>
          Some (Inr (NewRemoteOutput scope
                       (int (length (filter (\<lambda>c. Error c \<noteq> None) (map fst rs)))) (map fst rs),
                     map snd rs)))"

definition ExecuteClusterCommand ::
  "(nat \<Rightarrow> int \<Rightarrow> AttemptResult) \<Rightarrow> Scope \<Rightarrow> ShellCommand list
     \<Rightarrow> (fatal + RemoteOutput \<times> event list list) option" where
  "ExecuteClusterCommand runs scope commandList =
     ExecuteClusterCommandWithRetries runs scope commandList 1 0"

text \<open>
  The errors an accumulated \<^verbatim>\<open>RetryError\<close> holds, in order: the leaves of the tree that
  repeated \<^verbatim>\<open>errors.Join\<close> builds.
\<close>

fun attemptErrors :: "goerror \<Rightarrow> goerror list" where
  "attemptErrors (JoinError es) = concat (map attemptErrors es)"
| "attemptErrors (ExecError s) = [ExecError s]"
| "attemptErrors (AttemptError k e s) = [AttemptError k e s]"

definition retryErrors :: "goerror option \<Rightarrow> goerror list" where
  "retryErrors r = (case r of None \<Rightarrow> [] | Some e \<Rightarrow> attemptErrors e)"

text \<open>Outcomes for examples: success, and failure with exit status 1.\<close>

definition succeeds :: AttemptResult where
  "succeeds = \<lparr>resultOut = ''ok'', resultErr = None, resultStderr = ''''\<rparr>"

definition fails :: AttemptResult where
  "fails = \<lparr>resultOut = '''', resultErr = Some (ExecError ''exit status 1''),
            resultStderr = ''no route to host''\<rparr>"

definition freshCommand :: ShellCommand where
  "freshCommand =
     \<lparr>Scope = 0, Content = 0, Host = '''', Command = [''true''], CommandString = ''true'',
      Stdout = '''', Stderr = '''', Error = None, RetryError = None, Completed = False\<rparr>"

section \<open>Reading the topology dump\<close>

text \<open>
  Standard-library functions of the parser, on strings as UTF-8 bytes.
  \<^verbatim>\<open>strings.Fields\<close> splits around runs of white space as \<^verbatim>\<open>unicode.IsSpace\<close> defines it:
  the six ASCII characters tab, line feed, vertical tab, form feed, carriage return and
  space, and the code points U+0085, U+00A0, U+1680, U+2000 to U+200A, U+2028, U+2029,
  U+202F, U+205F and U+3000. \<open>spaceWidth s\<close> is the number of bytes of the white-space
  character that \<open>s\<close> starts with, and 0 when it starts with none. The lead bytes of
  these encodings are never continuation bytes, so reading bytes finds the same
  characters as decoding runes.
\<close>

definition asciiSpace :: "char \<Rightarrow> bool" where
  "asciiSpace c = (c = CHR 0x09 \<or> c = CHR 0x0A \<or> c = CHR 0x0B \<or> c = CHR 0x0C \<or> c = CHR 0x0D
     \<or> c = CHR 0x20)"

fun spaceWidth :: "string \<Rightarrow> nat" where
  "spaceWidth [] = 0"
| "spaceWidth [c] = (if asciiSpace c then 1 else 0)"
| "spaceWidth [c, d] =
     (if asciiSpace c then 1
      else if c = CHR 0xC2 \<and> (d = CHR 0x85 \<or> d = CHR 0xA0) then 2
      else 0)"
| "spaceWidth (c # d # e # rest) =
     (if asciiSpace c then 1
      else if c = CHR 0xC2 \<and> (d = CHR 0x85 \<or> d = CHR 0xA0) then 2
      else if c = CHR 0xE1 \<and> d = CHR 0x9A \<and> e = CHR 0x80 then 3
      else if c = CHR 0xE2 \<and> d = CHR 0x80
         \<and> (e = CHR 0x80 \<or> e = CHR 0x81 \<or> e = CHR 0x82 \<or> e = CHR 0x83 \<or> e = CHR 0x84
            \<or> e = CHR 0x85 \<or> e = CHR 0x86 \<or> e = CHR 0x87 \<or> e = CHR 0x88 \<or> e = CHR 0x89
            \<or> e = CHR 0x8A \<or> e = CHR 0xA8 \<or> e = CHR 0xA9 \<or> e = CHR 0xAF) then 3
      else if c = CHR 0xE2 \<and> d = CHR 0x81 \<and> e = CHR 0x9F then 3
      else if c = CHR 0xE3 \<and> d = CHR 0x80 \<and> e = CHR 0x80 then 3
      else 0)"

text \<open>
  \<open>fieldsFrom s cur skip\<close>: the fields of the rest \<open>s\<close> of the string, where \<open>cur\<close> is the
  field read so far and \<open>skip\<close> counts the bytes still to pass of a white-space
  character.
\<close>

fun fieldsFrom :: "string \<Rightarrow> string \<Rightarrow> nat \<Rightarrow> string list" where
  "fieldsFrom [] cur skip = (if cur = [] then [] else [cur])"
| "fieldsFrom (c # cs) cur skip =
     (if 0 < skip then fieldsFrom cs cur (skip - 1)
      else if 0 < spaceWidth (c # cs)
        then (if cur = [] then fieldsFrom cs [] (spaceWidth (c # cs) - 1)
              else cur # fieldsFrom cs [] (spaceWidth (c # cs) - 1))
      else fieldsFrom cs (cur @ [c]) 0)"

definition Fields :: "string \<Rightarrow> string list" where
  "Fields s = fieldsFrom s [] 0"

text \<open>
  \<^verbatim>\<open>len(strings.TrimSpace(s)) == 0\<close> holds exactly when \<open>s\<close> has no character that is not
  white space, that is, when it has no field.
\<close>

definition trimmedEmpty :: "string \<Rightarrow> bool" where
  "trimmedEmpty s = (Fields s = [])"

text \<open>
  \<^verbatim>\<open>strconv.Atoi\<close> for the 64-bit \<^verbatim>\<open>int\<close>: an optional sign, then one or more decimal
  digits, with a value from \<open>-2^63\<close> to \<open>2^63 - 1\<close>. \<^term>\<open>None\<close> is any error.
\<close>

definition digitValue :: "char \<Rightarrow> nat option" where
  "digitValue c =
     map_of [(CHR ''0'', 0), (CHR ''1'', 1), (CHR ''2'', 2), (CHR ''3'', 3), (CHR ''4'', 4),
             (CHR ''5'', 5), (CHR ''6'', 6), (CHR ''7'', 7), (CHR ''8'', 8), (CHR ''9'', 9)] c"

fun decimal :: "string \<Rightarrow> nat \<Rightarrow> nat option" where
  "decimal [] n = Some n"
| "decimal (c # cs) n =
     (case digitValue c of None \<Rightarrow> None | Some d \<Rightarrow> decimal cs (n * 10 + d))"

definition Atoi :: "string \<Rightarrow> int option" where
  "Atoi s =
     (case s of
        [] \<Rightarrow> None
      | c # rest \<Rightarrow>
          let neg = (c = CHR ''-'');
              digits = (if c = CHR ''-'' \<or> c = CHR ''+'' then rest else s)
          in if digits = [] then None
             else case decimal digits 0 of
                    None \<Rightarrow> None
                  | Some n \<Rightarrow>
                      if neg then (if 2 ^ 63 < int n then None else Some (- int n))
                      else (if 2 ^ 63 \<le> int n then None else Some (int n)))"

text \<open>
  The errors \<^verbatim>\<open>GetSegmentConfigurationFromFile\<close> returns, each with the path, the field
  count and line, or the field that its message quotes (the text of the underlying
  library error, which the message also quotes, is left out for the three conversions).
\<close>

datatype parseError =
  EmptyDataDir
  | OpenFailed string string
  | UnexpectedFields nat string
  | BadDbID string
  | BadContent string
  | BadPort string
  | ReadFailed string string

text \<open>The body of the scanning loop for one line: an error, or the record to append.\<close>

definition parseLine :: "string \<Rightarrow> parseError + SegConfig" where
  "parseLine line =
     (let fields = Fields line; parts = length fields
      in if parts \<noteq> 9 \<and> parts \<noteq> 10 then Inl (UnexpectedFields parts line)
         else case Atoi (fields ! 0) of
           None \<Rightarrow> Inl (BadDbID (fields ! 0))
         | Some dbID \<Rightarrow>
             (case Atoi (fields ! 1) of
                None \<Rightarrow> Inl (BadContent (fields ! 1))
              | Some content \<Rightarrow>
                  (case Atoi (fields ! 6) of
                     None \<Rightarrow> Inl (BadPort (fields ! 6))
                   | Some port \<Rightarrow>
                       let datadir = (if parts = 10 then fields ! 9 else '''')
                       in Inr \<lparr>DbID = dbID, ContentID = content, Role = fields ! 2,
                               PreferredRole = fields ! 3, Mode = fields ! 4,
                               Status = fields ! 5, Port = port, Hostname = fields ! 7,
                               Address = fields ! 8, DataDir = datadir\<rparr>)))"

text \<open>The loop \<^verbatim>\<open>for scanner.Scan()\<close> over the lines the scanner yields.\<close>

fun scanLoop :: "string list \<Rightarrow> SegConfig list \<Rightarrow> parseError + SegConfig list" where
  "scanLoop [] results = Inr results"
| "scanLoop (line # rest) results =
     (case parseLine line of
        Inl e \<Rightarrow> Inl e
      | Inr segConfig \<Rightarrow> scanLoop rest (results @ [segConfig]))"

text \<open>
  \<^verbatim>\<open>GetSegmentConfigurationFromFile\<close>. The file system is the parameter \<open>openDump\<close>: for
  the path of the dump file it gives the error of \<^verbatim>\<open>os.Open\<close>, or the lines the scanner
  yields together with the error the scanner ends with, if any. \<open>pathJoin\<close> stands for
  \<^verbatim>\<open>path.Join\<close>.
\<close>

definition GetSegmentConfigurationFromFile ::
  "(string \<Rightarrow> string \<Rightarrow> string) \<Rightarrow> (string \<Rightarrow> string + string list \<times> string option) \<Rightarrow> string
     \<Rightarrow> parseError + SegConfig list" where
  "GetSegmentConfigurationFromFile pathJoin openDump coordinatorDataDir =
     (if trimmedEmpty coordinatorDataDir then Inl EmptyDataDir
      else let gpsegconfigDump = pathJoin coordinatorDataDir ''gpsegconfig_dump''
           in case openDump gpsegconfigDump of
                Inl err \<Rightarrow> Inl (OpenFailed gpsegconfigDump err)
              | Inr (lines, scanErr) \<Rightarrow>
                  (case scanLoop lines [] of
                     Inl e \<Rightarrow> Inl e
                   | Inr results \<Rightarrow>
                       (case scanErr of
                          Some err \<Rightarrow> Inl (ReadFailed gpsegconfigDump err)
                        | None \<Rightarrow> Inr results)))"

text \<open>A file system for examples: one dump file with the given lines.\<close>

definition slashJoin :: "string \<Rightarrow> string \<Rightarrow> string" where
  "slashJoin dir name = dir @ ''/'' @ name"

definition dumpWith :: "string list \<Rightarrow> string \<Rightarrow> string + string list \<times> string option" where
  "dumpWith lines path =
     (if path = ''/data/qddir/gpsegconfig_dump'' then Inr (lines, None)
      else Inl ''no such file or directory'')"

text \<open>
  A numeric field, for the statements below: an optional sign followed by at least one
  decimal digit.
\<close>

definition isNumeric :: "string \<Rightarrow> bool" where
  "isNumeric s =
     (case s of
        [] \<Rightarrow> False
      | c # rest \<Rightarrow>
          (if c = CHR ''-'' \<or> c = CHR ''+'' then rest \<noteq> [] \<and> list_all (\<lambda>d. digitValue d \<noteq> None) rest
           else list_all (\<lambda>d. digitValue d \<noteq> None) s))"

text \<open>
  A command as a first run with one failed attempt leaves it in the list: completed, with
  a terminal error and a \<^verbatim>\<open>RetryError\<close> of one wrapped error.
\<close>

definition failedCommand :: ShellCommand where
  "failedCommand =
     \<lparr>Scope = 0, Content = 0, Host = '''', Command = [''true''], CommandString = ''true'',
      Stdout = '''', Stderr = ''no route to host'', Error = Some (ExecError ''exit status 1''),
      RetryError = Some (JoinError
        [AttemptError 1 (ExecError ''exit status 1'') ''no route to host'']),
      Completed = True\<rparr>"

section \<open>The report\<close>

lemma foldl_classifyCommand:
  "foldl classifyCommand (fs, rs) commands =
     (fs @ filter (\<lambda>c. Error c \<noteq> None) commands,
      rs @ filter (\<lambda>c. Error c = None \<and> RetryError c \<noteq> None) commands)"
  by (induction commands arbitrary: fs rs) (simp_all add: classifyCommand_def)

text \<open>
  C9. For every scope, error count and command list, the report of \<^verbatim>\<open>NewRemoteOutput\<close>
  has as failed commands exactly the commands with a terminal error, in order, and as
  retried commands exactly the commands with no terminal error and a retry error, in
  order; the two lists have no command in common.
\<close>

theorem NewRemoteOutput_partition:
  "FailedCommands (NewRemoteOutput scope numErrors commands) =
     filter (\<lambda>c. Error c \<noteq> None) commands
   \<and> RetriedCommands (NewRemoteOutput scope numErrors commands) =
     filter (\<lambda>c. Error c = None \<and> RetryError c \<noteq> None) commands
   \<and> set (FailedCommands (NewRemoteOutput scope numErrors commands))
     \<inter> set (RetriedCommands (NewRemoteOutput scope numErrors commands)) = {}"
proof -
  have f: "FailedCommands (NewRemoteOutput scope numErrors commands) =
      filter (\<lambda>c. Error c \<noteq> None) commands"
    by (simp add: NewRemoteOutput_def foldl_classifyCommand)
  have r: "RetriedCommands (NewRemoteOutput scope numErrors commands) =
      filter (\<lambda>c. Error c = None \<and> RetryError c \<noteq> None) commands"
    by (simp add: NewRemoteOutput_def foldl_classifyCommand)
  have "set (filter (\<lambda>c. Error c \<noteq> None) commands)
      \<inter> set (filter (\<lambda>c. Error c = None \<and> RetryError c \<noteq> None) commands) = {}"
    by auto
  with f r show ?thesis by simp
qed

theorem NewRemoteOutput_partition_witness:
  "FailedCommands (NewRemoteOutput 1 1
      [doneCommand 0 None None, doneCommand 1 (Some (ExecError ''exit status 1'')) None,
       doneCommand 2 None (Some (JoinError [ExecError ''x'']))]) =
     [doneCommand 1 (Some (ExecError ''exit status 1'')) None]
   \<and> RetriedCommands (NewRemoteOutput 1 1
      [doneCommand 0 None None, doneCommand 1 (Some (ExecError ''exit status 1'')) None,
       doneCommand 2 None (Some (JoinError [ExecError ''x'']))]) =
     [doneCommand 2 None (Some (JoinError [ExecError ''x'']))]"
  using NewRemoteOutput_partition [of 1 1
      "[doneCommand 0 None None, doneCommand 1 (Some (ExecError ''exit status 1'')) None,
        doneCommand 2 None (Some (JoinError [ExecError ''x'']))]"]
  by (simp add: doneCommand_def)

section \<open>Lookups by content id\<close>

lemma role_is_m: "(length role = Suc 0 \<and> role ! 0 = x) = (role = [x])"
  by (cases role) auto

text \<open>
  C10. For every cluster and content id: when \<^verbatim>\<open>ByContent\<close> holds no record at the content
  id, the four lookups return their absent values (\<open>-1\<close>, \<open>-1\<close>, the empty string twice)
  for every role argument; when it holds exactly one record, a request for role \<open>m\<close>
  returns the absent values, and every other request (no role, or a role other than
  \<open>m\<close>) returns that record's values, whatever the record's own role is.
\<close>

theorem ForContent_absent_or_single:
  "(lookupList (ByContent cluster) contentID = [] \<longrightarrow>
      GetDbidForContent cluster contentID role = - 1
    \<and> GetPortForContent cluster contentID role = - 1
    \<and> GetHostForContent cluster contentID role = ''''
    \<and> GetDirForContent cluster contentID role = '''')
   \<and> (lookupList (ByContent cluster) contentID = [segConfig] \<longrightarrow>
      GetDbidForContent cluster contentID [''m''] = - 1
    \<and> GetPortForContent cluster contentID [''m''] = - 1
    \<and> GetHostForContent cluster contentID [''m''] = ''''
    \<and> GetDirForContent cluster contentID [''m''] = ''''
    \<and> (role \<noteq> [''m''] \<longrightarrow>
        GetDbidForContent cluster contentID role = DbID segConfig
      \<and> GetPortForContent cluster contentID role = Port segConfig
      \<and> GetHostForContent cluster contentID role = Hostname segConfig
      \<and> GetDirForContent cluster contentID role = DataDir segConfig))"
  by (simp add: GetDbidForContent_def GetPortForContent_def GetHostForContent_def
      GetDirForContent_def getSegmentByRole_def role_is_m)

lemma ByContent_single_mirror:
  "lookupList (ByContent (NewCluster [seg 2 0 ''m'' ''sdw1''])) 0 = [seg 2 0 ''m'' ''sdw1'']"
  by (simp add: NewCluster_def addSegment_def appendToContent_def lookupList_def seg_def Let_def)

lemma ByContent_single_mirror_absent:
  "lookupList (ByContent (NewCluster [seg 2 0 ''m'' ''sdw1''])) 7 = []"
  by (simp add: NewCluster_def addSegment_def appendToContent_def lookupList_def seg_def Let_def)

theorem ForContent_absent_or_single_witness:
  "GetDbidForContent (NewCluster [seg 2 0 ''m'' ''sdw1'']) 7 [''p''] = - 1
   \<and> GetHostForContent (NewCluster [seg 2 0 ''m'' ''sdw1'']) 7 [''p''] = ''''
   \<and> GetDbidForContent (NewCluster [seg 2 0 ''m'' ''sdw1'']) 0 [''m''] = - 1
   \<and> GetDbidForContent (NewCluster [seg 2 0 ''m'' ''sdw1'']) 0 [] = 2
   \<and> GetHostForContent (NewCluster [seg 2 0 ''m'' ''sdw1'']) 0 [] = ''sdw1''"
  using ForContent_absent_or_single [of "NewCluster [seg 2 0 ''m'' ''sdw1'']" 7 "[''p'']"]
    ForContent_absent_or_single [of "NewCluster [seg 2 0 ''m'' ''sdw1'']" 0 "[]"
      "seg 2 0 ''m'' ''sdw1''"]
    ByContent_single_mirror ByContent_single_mirror_absent
  by (simp add: seg_def)

section \<open>The order of the records of a content id\<close>

lemma ByContent_addSegment:
  "lookupList (ByContent (addSegment cluster s)) c =
     (if ContentID s = c then appendToContent (lookupList (ByContent cluster) c) s
      else lookupList (ByContent cluster) c)"
  by (simp add: addSegment_def Let_def lookupList_def update_conv')

lemma ByContent_foldl_addSegment:
  "lookupList (ByContent (foldl addSegment cluster segConfigs)) c =
     foldl appendToContent (lookupList (ByContent cluster) c)
       (filter (\<lambda>s. ContentID s = c) segConfigs)"
  by (induction segConfigs arbitrary: cluster) (simp_all add: ByContent_addSegment)

lemma ByContent_NewCluster:
  "lookupList (ByContent (NewCluster segConfigs)) c =
     foldl appendToContent [] (filter (\<lambda>s. ContentID s = c) segConfigs)"
proof -
  have "ByContent (NewCluster segConfigs) =
      ByContent (foldl addSegment
        \<lparr>ContentIDs = [], Hostnames = [], Segments = segConfigs, ByContent = [], ByHost = []\<rparr>
        segConfigs)"
    by (simp add: NewCluster_def Let_def)
  then show ?thesis
    by (simp add: ByContent_foldl_addSegment) (simp add: lookupList_def)
qed

lemma foldl_appendToContent_long:
  "2 \<le> length xs \<Longrightarrow> foldl appendToContent xs rest = xs @ rest"
  by (induction rest arbitrary: xs) (simp_all add: appendToContent_def)

text \<open>
  C4. For every input sequence of node records and every content id whose first two
  records in the input are a primary \<open>p\<close> and a mirror \<open>m\<close>, in either order,
  \<^verbatim>\<open>ByContent\<close> of the built cluster lists the primary first and the mirror second,
  followed by the further records of the content id, if the input has any, in their
  input order. So at a content id that holds a primary and a mirror, the two records of
  the data model, the primary precedes the mirror whichever came first in the input.
\<close>

theorem NewCluster_primary_before_mirror:
  assumes "Role p = ''p''" and "Role m = ''m''"
    and "filter (\<lambda>s. ContentID s = c) segConfigs = p # m # rest
         \<or> filter (\<lambda>s. ContentID s = c) segConfigs = m # p # rest"
  shows "lookupList (ByContent (NewCluster segConfigs)) c = p # m # rest"
proof -
  have "foldl appendToContent [] (p # m # rest) = p # m # rest"
    using assms(1) foldl_appendToContent_long [of "[p, m]" rest]
    by (simp add: appendToContent_def)
  moreover have "foldl appendToContent [] (m # p # rest) = p # m # rest"
    using assms(2) foldl_appendToContent_long [of "[p, m]" rest]
    by (simp add: appendToContent_def)
  ultimately show ?thesis
    using assms(3) by (auto simp add: ByContent_NewCluster)
qed

theorem NewCluster_primary_before_mirror_witness:
  "lookupList (ByContent (NewCluster
      [seg 3 0 ''m'' ''sdw2'', seg 1 (- 1) ''p'' ''cdw'', seg 2 0 ''p'' ''sdw1''])) 0 =
     [seg 2 0 ''p'' ''sdw1'', seg 3 0 ''m'' ''sdw2'']
   \<and> lookupList (ByContent (NewCluster
      [seg 1 (- 1) ''p'' ''cdw'', seg 2 0 ''p'' ''sdw1'', seg 3 0 ''m'' ''sdw2''])) 0 =
     [seg 2 0 ''p'' ''sdw1'', seg 3 0 ''m'' ''sdw2'']"
  using NewCluster_primary_before_mirror [of "seg 2 0 ''p'' ''sdw1''" "seg 3 0 ''m'' ''sdw2''" 0
      "[seg 3 0 ''m'' ''sdw2'', seg 1 (- 1) ''p'' ''cdw'', seg 2 0 ''p'' ''sdw1'']" "[]"]
    NewCluster_primary_before_mirror [of "seg 2 0 ''p'' ''sdw1''" "seg 3 0 ''m'' ''sdw2''" 0
      "[seg 1 (- 1) ''p'' ''cdw'', seg 2 0 ''p'' ''sdw1'', seg 3 0 ''m'' ''sdw2'']" "[]"]
  by (simp add: seg_def)

section \<open>Command generation\<close>

lemma NewShellCommand_Inr:
  "NewShellCommand scope content host command = Inr c \<Longrightarrow>
     Scope c = scope \<and> Content c = content \<and> Host c = host \<and> Command c = command
     \<and> Error c = None \<and> RetryError c = None \<and> \<not> Completed c \<and> command \<noteq> []"
  by (auto simp add: NewShellCommand_def split: list.splits)

lemma NewShellCommand_Inl:
  "NewShellCommand scope content host command = Inl e \<Longrightarrow> e = IndexOutOfRange \<and> command = []"
  by (auto simp add: NewShellCommand_def split: list.splits)

lemma NewShellCommand_total:
  "command \<noteq> [] \<Longrightarrow> \<exists>c. NewShellCommand scope content host command = Inr c"
  by (cases command) (simp_all add: NewShellCommand_def)

lemma contentLoop_Inr:
  "contentLoop scope g cs acc = Inr commands \<Longrightarrow>
     \<exists>new. commands = acc @ new
       \<and> map Content new = filter (\<lambda>c. \<not> (c = - 1 \<and> scopeExcludesCoordinator scope)) cs
       \<and> (\<forall>c\<in>set new. Host c = '''' \<and> Command c = g (Content c) \<and> Scope c = scope
            \<and> RetryError c = None)"
proof (induction cs arbitrary: acc)
  case Nil
  then show ?case by simp
next
  case (Cons content rest)
  show ?case
  proof (cases "content = - 1 \<and> scopeExcludesCoordinator scope")
    case True
    with Cons.prems have "contentLoop scope g rest acc = Inr commands" by simp
    from Cons.IH [OF this] True show ?thesis by auto
  next
    case False
    with Cons.prems obtain c where
      c: "NewShellCommand scope content '''' (g content) = Inr c"
      and rest: "contentLoop scope g rest (acc @ [c]) = Inr commands"
      by (auto split: sum.splits)
    from Cons.IH [OF rest] obtain new where
      new: "commands = (acc @ [c]) @ new"
        "map Content new = filter (\<lambda>c. \<not> (c = - 1 \<and> scopeExcludesCoordinator scope)) rest"
        "\<forall>c\<in>set new. Host c = '''' \<and> Command c = g (Content c) \<and> Scope c = scope
            \<and> RetryError c = None"
      by blast
    from NewShellCommand_Inr [OF c] new False show ?thesis
      by (intro exI [of _ "c # new"]) auto
  qed
qed

lemma contentLoop_Inl:
  "contentLoop scope g cs acc = Inl e \<Longrightarrow>
     e = IndexOutOfRange
     \<and> (\<exists>c\<in>set cs. \<not> (c = - 1 \<and> scopeExcludesCoordinator scope) \<and> g c = [])"
proof (induction cs arbitrary: acc)
  case Nil
  then show ?case by simp
next
  case (Cons content rest)
  then show ?case
    by (auto split: if_splits sum.splits dest: NewShellCommand_Inl)
qed

lemma contentLoop_total:
  "\<forall>c\<in>set cs. \<not> (c = - 1 \<and> scopeExcludesCoordinator scope) \<longrightarrow> g c \<noteq> [] \<Longrightarrow>
     \<exists>commands. contentLoop scope g cs acc = Inr commands"
  by (cases "contentLoop scope g cs acc") (auto dest: contentLoop_Inl)

lemma hostLoop_Inr:
  "hostLoop cluster scope g hs acc = Inr commands \<Longrightarrow>
     \<exists>new. commands = acc @ new
       \<and> map Host new = filter (\<lambda>h. \<not> hostSkipped cluster scope h) hs
       \<and> (\<forall>c\<in>set new. Content c = - 2 \<and> Command c = g (Host c) \<and> Scope c = scope
            \<and> RetryError c = None)"
proof (induction hs arbitrary: acc)
  case Nil
  then show ?case by simp
next
  case (Cons host rest)
  show ?case
  proof (cases "hostSkipped cluster scope host")
    case True
    with Cons.prems have "hostLoop cluster scope g rest acc = Inr commands"
      by (auto simp add: hostSkipped_def Let_def split: if_splits)
    from Cons.IH [OF this] True show ?thesis by auto
  next
    case False
    with Cons.prems obtain c where
      c: "NewShellCommand scope (- 2) host (g host) = Inr c"
      and rest: "hostLoop cluster scope g rest (acc @ [c]) = Inr commands"
      by (auto simp add: hostSkipped_def Let_def split: if_splits sum.splits)
    from Cons.IH [OF rest] obtain new where
      new: "commands = (acc @ [c]) @ new"
        "map Host new = filter (\<lambda>h. \<not> hostSkipped cluster scope h) rest"
        "\<forall>c\<in>set new. Content c = - 2 \<and> Command c = g (Host c) \<and> Scope c = scope
            \<and> RetryError c = None"
      by blast
    from NewShellCommand_Inr [OF c] new False show ?thesis
      by (intro exI [of _ "c # new"]) auto
  qed
qed

lemma hostLoop_Inl:
  "hostLoop cluster scope g hs acc = Inl e \<Longrightarrow>
     e = IndexOutOfRange \<and> (\<exists>h\<in>set hs. \<not> hostSkipped cluster scope h \<and> g h = [])"
proof (induction hs arbitrary: acc)
  case Nil
  then show ?case by simp
next
  case (Cons host rest)
  then show ?case
    by (auto simp add: hostSkipped_def Let_def split: if_splits sum.splits dest: NewShellCommand_Inl)
qed

lemma hostLoop_total:
  "\<forall>h\<in>set hs. \<not> hostSkipped cluster scope h \<longrightarrow> g h \<noteq> [] \<Longrightarrow>
     \<exists>commands. hostLoop cluster scope g hs acc = Inr commands"
  by (cases "hostLoop cluster scope g hs acc") (auto dest: hostLoop_Inl)
lemma GenerateCommandList_HostArgv_Inr:
  assumes "GenerateCommandList cluster scope (HostArgv g) = Inr commands"
  shows "map Host commands = filter (\<lambda>h. \<not> hostSkipped cluster scope h) (Hostnames cluster)"
    and "\<forall>c\<in>set commands. Content c = - 2 \<and> Command c = g (Host c) \<and> Scope c = scope
            \<and> RetryError c = None"
  using hostLoop_Inr [of cluster scope g "Hostnames cluster" "[]" commands] assms
  by (auto simp add: GenerateCommandList_def)

lemma GenerateCommandList_ContentArgv_Inr:
  assumes "GenerateCommandList cluster scope (ContentArgv g) = Inr commands"
  shows "map Content commands =
      filter (\<lambda>c. \<not> (c = - 1 \<and> scopeExcludesCoordinator scope)) (ContentIDs cluster)"
    and "\<forall>c\<in>set commands. Host c = '''' \<and> Command c = g (Content c) \<and> Scope c = scope
            \<and> RetryError c = None"
  using contentLoop_Inr [of scope g "ContentIDs cluster" "[]" commands] assms
  by (auto simp add: GenerateCommandList_def)

subsection \<open>The three-node scenario\<close>

lemma threeNodes_Hostnames: "Hostnames (NewCluster threeNodes) = [''coord'', ''standby'', ''seg1'']"
  by (simp add: NewCluster_def threeNodes_def seg_def addSegment_def appendToContent_def
      lookupList_def Let_def)

lemma threeNodes_coordinator:
  "lookupList (ByContent (NewCluster threeNodes)) (- 1) =
     [seg 1 (- 1) ''p'' ''coord'', seg 2 (- 1) ''m'' ''standby'']"
  by (simp add: ByContent_NewCluster threeNodes_def appendToContent_def seg_def)

lemma threeNodes_coordinator_host:
  "GetHostForContent (NewCluster threeNodes) (- 1) [''p''] = ''coord''"
  "GetHostForContent (NewCluster threeNodes) (- 1) [''m''] = ''standby''"
  "GetHostForContent (NewCluster threeNodes) (- 1) [] = ''coord''"
  by (simp_all add: GetHostForContent_def getSegmentByRole_def threeNodes_coordinator seg_def)

lemma threeNodes_contents:
  "GetContentsForHost (NewCluster threeNodes) ''coord'' = [- 1]"
  "GetContentsForHost (NewCluster threeNodes) ''standby'' = [- 1]"
  "GetContentsForHost (NewCluster threeNodes) ''seg1'' = [0]"
  by (simp_all add: GetContentsForHost_def NewCluster_def threeNodes_def seg_def addSegment_def
      appendToContent_def lookupList_def Let_def)

lemma threeNodes_hostSkipped:
  "hostSkipped (NewCluster threeNodes) scope ''coord'' = scopeExcludesCoordinator scope"
  "hostSkipped (NewCluster threeNodes) scope ''standby'' = scopeExcludesMirrors scope"
  "hostSkipped (NewCluster threeNodes) scope ''seg1'' = False"
  by (simp_all add: hostSkipped_def threeNodes_coordinator_host threeNodes_contents)

lemma scopes_per_host:
  "scopeExcludesCoordinator (ON_HOSTS OR EXCLUDE_COORDINATOR)"
  "scopeExcludesMirrors (ON_HOSTS OR EXCLUDE_COORDINATOR)"
  "\<not> scopeExcludesCoordinator (ON_HOSTS OR INCLUDE_COORDINATOR)"
  "scopeExcludesMirrors (ON_HOSTS OR INCLUDE_COORDINATOR)"
  "\<not> scopeExcludesCoordinator (ON_HOSTS OR INCLUDE_COORDINATOR OR INCLUDE_MIRRORS)"
  "\<not> scopeExcludesMirrors (ON_HOSTS OR INCLUDE_COORDINATOR OR INCLUDE_MIRRORS)"
  by (simp_all add: scopeExcludesCoordinator_def scopeExcludesMirrors_def ON_HOSTS_def
      EXCLUDE_COORDINATOR_def INCLUDE_COORDINATOR_def EXCLUDE_MIRRORS_def INCLUDE_MIRRORS_def)

lemma threeNodes_hosts:
  assumes "\<forall>host. g host \<noteq> []"
  shows "\<exists>commands. GenerateCommandList (NewCluster threeNodes) scope (HostArgv g) = Inr commands
     \<and> map Host commands =
         filter (\<lambda>h. \<not> hostSkipped (NewCluster threeNodes) scope h) [''coord'', ''standby'', ''seg1'']"
proof -
  from assms obtain commands where
    c: "GenerateCommandList (NewCluster threeNodes) scope (HostArgv g) = Inr commands"
    using hostLoop_total [of "Hostnames (NewCluster threeNodes)" "NewCluster threeNodes" scope g "[]"]
    by (auto simp add: GenerateCommandList_def)
  from GenerateCommandList_HostArgv_Inr(1) [OF c] c show ?thesis
    by (simp add: threeNodes_Hostnames)
qed

text \<open>
  C1, as amended. For the three-node cluster of the scenario and a host-level generator
  that returns a non-empty argv for every host: under per-host + exclude-coordinator the
  host list is \<open>[seg1]\<close>; under per-host + include-coordinator, the other axes at their
  defaults, it is \<open>[coord, seg1]\<close>, the standby host being passed over because the
  scope excludes mirrors; under per-host + include-coordinator + include-mirrors it is
  \<open>[coord, standby, seg1]\<close>. In general, for every cluster, scope and generator, a host
  of the cluster that gets no command is the coordinator's host under a scope that
  excludes the coordinator, or the standby's host under a scope that excludes mirrors,
  and carries exactly one segment record.
\<close>

theorem GenerateCommandList_hosts_scenario:
  assumes "\<forall>host. g host \<noteq> []"
  shows "(\<exists>commands.
        GenerateCommandList (NewCluster threeNodes) (ON_HOSTS OR EXCLUDE_COORDINATOR) (HostArgv g)
          = Inr commands
        \<and> map Host commands = [''seg1''])
     \<and> (\<exists>commands.
        GenerateCommandList (NewCluster threeNodes) (ON_HOSTS OR INCLUDE_COORDINATOR) (HostArgv g)
          = Inr commands
        \<and> map Host commands = [''coord'', ''seg1''])
     \<and> (\<exists>commands.
        GenerateCommandList (NewCluster threeNodes)
          (ON_HOSTS OR INCLUDE_COORDINATOR OR INCLUDE_MIRRORS) (HostArgv g) = Inr commands
        \<and> map Host commands = [''coord'', ''standby'', ''seg1''])
     \<and> (\<forall>cluster scope g' commands host.
        GenerateCommandList cluster scope (HostArgv g') = Inr commands
        \<and> host \<in> set (Hostnames cluster) \<and> host \<notin> set (map Host commands) \<longrightarrow>
          length (GetContentsForHost cluster host) = 1
          \<and> (host = GetHostForContent cluster (- 1) [''p''] \<and> scopeExcludesCoordinator scope
             \<or> host = GetHostForContent cluster (- 1) [''m''] \<and> scopeExcludesMirrors scope))"
proof -
  have h1: "\<exists>commands.
        GenerateCommandList (NewCluster threeNodes) (ON_HOSTS OR EXCLUDE_COORDINATOR) (HostArgv g)
          = Inr commands
        \<and> map Host commands = [''seg1'']"
    using threeNodes_hosts [OF assms, of "ON_HOSTS OR EXCLUDE_COORDINATOR"]
    by (simp add: threeNodes_hostSkipped scopes_per_host)
  have h2: "\<exists>commands.
        GenerateCommandList (NewCluster threeNodes) (ON_HOSTS OR INCLUDE_COORDINATOR) (HostArgv g)
          = Inr commands
        \<and> map Host commands = [''coord'', ''seg1'']"
    using threeNodes_hosts [OF assms, of "ON_HOSTS OR INCLUDE_COORDINATOR"]
    by (simp add: threeNodes_hostSkipped scopes_per_host)
  have h3: "\<exists>commands.
        GenerateCommandList (NewCluster threeNodes)
          (ON_HOSTS OR INCLUDE_COORDINATOR OR INCLUDE_MIRRORS) (HostArgv g) = Inr commands
        \<and> map Host commands = [''coord'', ''standby'', ''seg1'']"
    using threeNodes_hosts [OF assms, of "ON_HOSTS OR INCLUDE_COORDINATOR OR INCLUDE_MIRRORS"]
    by (simp add: threeNodes_hostSkipped scopes_per_host)
  have h4: "\<forall>cluster scope g' commands host.
        GenerateCommandList cluster scope (HostArgv g') = Inr commands
        \<and> host \<in> set (Hostnames cluster) \<and> host \<notin> set (map Host commands) \<longrightarrow>
          length (GetContentsForHost cluster host) = 1
          \<and> (host = GetHostForContent cluster (- 1) [''p''] \<and> scopeExcludesCoordinator scope
             \<or> host = GetHostForContent cluster (- 1) [''m''] \<and> scopeExcludesMirrors scope)"
  proof (intro allI impI)
    fix cluster scope g' commands host
    assume a: "GenerateCommandList cluster scope (HostArgv g') = Inr commands
          \<and> host \<in> set (Hostnames cluster) \<and> host \<notin> set (map Host commands)"
    then have "set (map Host commands) =
        set (filter (\<lambda>h. \<not> hostSkipped cluster scope h) (Hostnames cluster))"
      using GenerateCommandList_HostArgv_Inr(1) [of cluster scope g' commands] by simp
    with a have "host \<notin> set (filter (\<lambda>h. \<not> hostSkipped cluster scope h) (Hostnames cluster))"
      by blast
    with a have "hostSkipped cluster scope host" by simp
    then show "length (GetContentsForHost cluster host) = 1
            \<and> (host = GetHostForContent cluster (- 1) [''p''] \<and> scopeExcludesCoordinator scope
               \<or> host = GetHostForContent cluster (- 1) [''m''] \<and> scopeExcludesMirrors scope)"
      by (simp add: hostSkipped_def)
  qed
  show ?thesis
    by (intro conjI) (rule h1, rule h2, rule h3, rule h4)
qed

lemma threeNodes_per_host_commands:
  "GenerateCommandList (NewCluster threeNodes) (ON_HOSTS OR EXCLUDE_COORDINATOR)
     (HostArgv (\<lambda>host. [''hostname''])) =
   Inr [\<lparr>Scope = 1, Content = - 2, Host = ''seg1'', Command = [''hostname''],
         CommandString = ''hostname'', Stdout = '''', Stderr = '''', Error = None,
         RetryError = None, Completed = False\<rparr>]"
  by (simp add: GenerateCommandList_def threeNodes_Hostnames threeNodes_coordinator_host
      threeNodes_contents scopes_per_host NewShellCommand_def Let_def)
    (simp add: ON_HOSTS_def EXCLUDE_COORDINATOR_def)

theorem GenerateCommandList_hosts_scenario_witness:
  "map_sum id (map Host)
     (GenerateCommandList (NewCluster threeNodes) (ON_HOSTS OR EXCLUDE_COORDINATOR)
        (HostArgv (\<lambda>host. [''hostname'']))) = Inr [''seg1'']
   \<and> map_sum id (map Host)
     (GenerateCommandList (NewCluster threeNodes)
        (ON_HOSTS OR INCLUDE_COORDINATOR OR INCLUDE_MIRRORS)
        (HostArgv (\<lambda>host. [''hostname'']))) = Inr [''coord'', ''standby'', ''seg1'']
   \<and> ''coord'' \<in> set (Hostnames (NewCluster threeNodes))
   \<and> length (GetContentsForHost (NewCluster threeNodes) ''coord'') = 1
   \<and> scopeExcludesCoordinator (ON_HOSTS OR EXCLUDE_COORDINATOR)"
proof -
  have g: "\<forall>host. (\<lambda>host::string. [''hostname'']) host \<noteq> []"
    by simp
  note t = GenerateCommandList_hosts_scenario [OF g]
  from t have general: "\<forall>host.
      GenerateCommandList (NewCluster threeNodes) (ON_HOSTS OR EXCLUDE_COORDINATOR)
        (HostArgv (\<lambda>host. [''hostname''])) =
      Inr [\<lparr>Scope = 1, Content = - 2, Host = ''seg1'', Command = [''hostname''],
            CommandString = ''hostname'', Stdout = '''', Stderr = '''', Error = None,
            RetryError = None, Completed = False\<rparr>]
      \<and> host \<in> set (Hostnames (NewCluster threeNodes))
      \<and> host \<notin> set (map Host [\<lparr>Scope = 1, Content = - 2, Host = ''seg1'',
            Command = [''hostname''], CommandString = ''hostname'', Stdout = '''',
            Stderr = '''', Error = None, RetryError = None, Completed = False\<rparr>]) \<longrightarrow>
      length (GetContentsForHost (NewCluster threeNodes) host) = 1
      \<and> (host = GetHostForContent (NewCluster threeNodes) (- 1) [''p'']
            \<and> scopeExcludesCoordinator (ON_HOSTS OR EXCLUDE_COORDINATOR)
          \<or> host = GetHostForContent (NewCluster threeNodes) (- 1) [''m'']
            \<and> scopeExcludesMirrors (ON_HOSTS OR EXCLUDE_COORDINATOR))"
    by blast
  have "''coord'' \<in> set (Hostnames (NewCluster threeNodes))"
    by (simp add: threeNodes_Hostnames)
  with general threeNodes_per_host_commands
  have "length (GetContentsForHost (NewCluster threeNodes) ''coord'') = 1
      \<and> (''coord'' = GetHostForContent (NewCluster threeNodes) (- 1) [''p'']
            \<and> scopeExcludesCoordinator (ON_HOSTS OR EXCLUDE_COORDINATOR)
          \<or> ''coord'' = GetHostForContent (NewCluster threeNodes) (- 1) [''m'']
            \<and> scopeExcludesMirrors (ON_HOSTS OR EXCLUDE_COORDINATOR))"
    by simp
  then have "length (GetContentsForHost (NewCluster threeNodes) ''coord'') = 1
      \<and> scopeExcludesCoordinator (ON_HOSTS OR EXCLUDE_COORDINATOR)"
    by (simp add: threeNodes_coordinator_host)
  with t \<open>''coord'' \<in> set (Hostnames (NewCluster threeNodes))\<close> show ?thesis
    by auto
qed

text \<open>
  The scenario as C1 states it fails in its second half: with the coordinator
  included and the mirror axis at its default, the standby's host gets no command.
\<close>

theorem GenerateCommandList_include_coordinator_skips_standby:
  "map_sum id (map Host)
     (GenerateCommandList (NewCluster threeNodes) (ON_HOSTS OR INCLUDE_COORDINATOR)
        (HostArgv (\<lambda>host. [''hostname'']))) = Inr [''coord'', ''seg1'']"
  using threeNodes_hosts [of "\<lambda>host. [''hostname'']" "ON_HOSTS OR INCLUDE_COORDINATOR"]
  by (auto simp add: threeNodes_hostSkipped scopes_per_host)
subsection \<open>The content ids of a built cluster\<close>

lemma keys_addSegment:
  "fst ` set (ByContent (addSegment cluster s)) = insert (ContentID s) (fst ` set (ByContent cluster))"
  by (simp add: addSegment_def Let_def dom_update)

lemma distinct_keys_addSegment:
  "distinct (map fst (ByContent cluster)) \<Longrightarrow> distinct (map fst (ByContent (addSegment cluster s)))"
  by (simp add: addSegment_def Let_def distinct_update)

lemma keys_foldl_addSegment:
  "fst ` set (ByContent (foldl addSegment cluster segConfigs)) =
     fst ` set (ByContent cluster) \<union> ContentID ` set segConfigs"
  by (induction segConfigs arbitrary: cluster) (auto simp add: keys_addSegment)

lemma distinct_keys_foldl_addSegment:
  "distinct (map fst (ByContent cluster)) \<Longrightarrow>
     distinct (map fst (ByContent (foldl addSegment cluster segConfigs)))"
  by (induction segConfigs arbitrary: cluster) (simp_all add: distinct_keys_addSegment)

lemma ContentIDs_NewCluster:
  "ContentIDs (NewCluster segConfigs) = sorted_list_of_set (ContentID ` set segConfigs)"
proof -
  let ?c = "foldl addSegment
      \<lparr>ContentIDs = [], Hostnames = [], Segments = segConfigs, ByContent = [], ByHost = []\<rparr>
      segConfigs"
  have d: "distinct (map fst (ByContent ?c))"
    by (rule distinct_keys_foldl_addSegment) simp
  have k: "set (map fst (ByContent ?c)) = ContentID ` set segConfigs"
    using keys_foldl_addSegment [of _ segConfigs] by simp
  have "ContentIDs (NewCluster segConfigs) = sort (map fst (ByContent ?c))"
    by (simp add: NewCluster_def Let_def)
  also have "\<dots> = sort (remdups (map fst (ByContent ?c)))"
    using d by (simp add: distinct_remdups_id)
  also have "\<dots> = sorted_list_of_set (set (map fst (ByContent ?c)))"
    by (simp only: sorted_list_of_set_sort_remdups)
  finally show ?thesis
    by (simp only: k)
qed

text \<open>
  C5. For every cluster built by \<^verbatim>\<open>NewCluster\<close> and every scope that excludes the
  coordinator, node-level generation either returns a command list or panics, and it
  panics only when the generator returns an empty argv for a content id that is kept.
  When it returns (as it does whenever the generator returns no empty argv), the content
  ids of the commands are the distinct content ids of the input in ascending order with
  \<open>-1\<close> left out, so no command has content id \<open>-1\<close>, and every command has the empty
  string as its host.
\<close>

theorem GenerateCommandList_contents:
  assumes "scopeExcludesCoordinator scope"
  shows "(case GenerateCommandList (NewCluster segConfigs) scope (ContentArgv g) of
        Inl e \<Rightarrow> e = IndexOutOfRange \<and> (\<exists>c\<in>ContentID ` set segConfigs. c \<noteq> - 1 \<and> g c = [])
      | Inr commands \<Rightarrow>
          map Content commands =
            filter (\<lambda>c. c \<noteq> - 1) (sorted_list_of_set (ContentID ` set segConfigs))
          \<and> - 1 \<notin> set (map Content commands)
          \<and> sorted (map Content commands) \<and> distinct (map Content commands)
          \<and> (\<forall>c\<in>set commands. Host c = ''''))
     \<and> ((\<forall>c\<in>ContentID ` set segConfigs. c \<noteq> - 1 \<longrightarrow> g c \<noteq> []) \<longrightarrow>
        (\<exists>commands. GenerateCommandList (NewCluster segConfigs) scope (ContentArgv g) = Inr commands))"
proof -
  let ?ids = "sorted_list_of_set (ContentID ` set segConfigs)"
  have ids: "ContentIDs (NewCluster segConfigs) = ?ids"
    by (rule ContentIDs_NewCluster)
  have set_ids: "set ?ids = ContentID ` set segConfigs"
    by simp
  have first: "case GenerateCommandList (NewCluster segConfigs) scope (ContentArgv g) of
        Inl e \<Rightarrow> e = IndexOutOfRange \<and> (\<exists>c\<in>ContentID ` set segConfigs. c \<noteq> - 1 \<and> g c = [])
      | Inr commands \<Rightarrow>
          map Content commands = filter (\<lambda>c. c \<noteq> - 1) ?ids
          \<and> - 1 \<notin> set (map Content commands)
          \<and> sorted (map Content commands) \<and> distinct (map Content commands)
          \<and> (\<forall>c\<in>set commands. Host c = '''')"
  proof (cases "GenerateCommandList (NewCluster segConfigs) scope (ContentArgv g)")
    case (Inl e)
    then have "contentLoop scope g ?ids [] = Inl e"
      by (simp add: GenerateCommandList_def ids)
    from contentLoop_Inl [OF this] set_ids assms Inl show ?thesis
      by auto
  next
    case (Inr commands)
    from GenerateCommandList_ContentArgv_Inr [OF Inr] assms
    have m: "map Content commands = filter (\<lambda>c. c \<noteq> - 1) ?ids"
      and h: "\<forall>c\<in>set commands. Host c = ''''"
      by (simp_all add: ids)
    have "sorted (filter (\<lambda>c. c \<noteq> - 1) ?ids)" "distinct (filter (\<lambda>c. c \<noteq> - 1) ?ids)"
      by (simp_all add: sorted_wrt_filter)
    with m h Inr show ?thesis
      by simp
  qed
  have second: "(\<forall>c\<in>ContentID ` set segConfigs. c \<noteq> - 1 \<longrightarrow> g c \<noteq> []) \<longrightarrow>
        (\<exists>commands. GenerateCommandList (NewCluster segConfigs) scope (ContentArgv g) = Inr commands)"
  proof
    assume "\<forall>c\<in>ContentID ` set segConfigs. c \<noteq> - 1 \<longrightarrow> g c \<noteq> []"
    with set_ids assms
    have "\<forall>c\<in>set ?ids. \<not> (c = - 1 \<and> scopeExcludesCoordinator scope) \<longrightarrow> g c \<noteq> []"
      by auto
    from contentLoop_total [OF this, of "[]"]
    show "\<exists>commands. GenerateCommandList (NewCluster segConfigs) scope (ContentArgv g) = Inr commands"
      by (simp add: GenerateCommandList_def ids)
  qed
  from first second show ?thesis ..
qed

theorem GenerateCommandList_contents_witness:
  "scopeExcludesCoordinator ON_SEGMENTS
   \<and> map_sum id (map Content)
       (GenerateCommandList (NewCluster threeNodes) ON_SEGMENTS (ContentArgv (\<lambda>content. [''date'']))) =
     Inr [0]
   \<and> map_sum id (map Host)
       (GenerateCommandList (NewCluster threeNodes) ON_SEGMENTS (ContentArgv (\<lambda>content. [''date'']))) =
     Inr ['''']"
proof -
  have s: "scopeExcludesCoordinator ON_SEGMENTS"
    by (simp add: scopeExcludesCoordinator_def ON_SEGMENTS_def EXCLUDE_COORDINATOR_def)
  have ids: "sorted_list_of_set (ContentID ` set threeNodes) = [- 1, 0]"
    by (simp add: sorted_list_of_set_sort_remdups threeNodes_def seg_def)
  have img: "ContentID ` set threeNodes = {- 1, 0}"
    by (auto simp add: threeNodes_def seg_def)
  from GenerateCommandList_contents [OF s, of threeNodes "\<lambda>content. [''date'']"] s
  show ?thesis
    by (cases "GenerateCommandList (NewCluster threeNodes) ON_SEGMENTS
          (ContentArgv (\<lambda>content. [''date'']))")
      (auto simp add: ids img)
qed

subsection \<open>The SSH layer\<close>

lemma ConstructSSHCommand_nonempty: "ConstructSSHCommand user useLocal host cmd \<noteq> []"
  by (simp add: ConstructSSHCommand_def)

text \<open>
  C7. For every cluster, scope and string-producing generator, \<^verbatim>\<open>GenerateSSHCommandList\<close>
  returns a command list with one command for each content id (host) that
  \<^verbatim>\<open>GenerateCommandList\<close> keeps, and the argv of each command is
  \<open>[bash, -c, cmd]\<close> when the target host is the host of the coordinator or the scope
  is local, and \<open>[ssh, -o, StrictHostKeyChecking=no, user@host, cmd]\<close> otherwise, where
  \<open>cmd\<close> is the generator's string for the content id (host) and the target host of a
  node-level command is the host of the primary at its content id.
\<close>

theorem GenerateSSHCommandList_wraps:
  "(\<exists>commands.
      GenerateSSHCommandList user cluster scope (ContentString g) = Inr commands
      \<and> map Content commands =
          filter (\<lambda>c. \<not> (c = - 1 \<and> scopeExcludesCoordinator scope)) (ContentIDs cluster)
      \<and> (\<forall>c\<in>set commands.
            Command c =
              (if GetHostForContent cluster (Content c) [] = GetHostForContent cluster (- 1) []
                  \<or> scopeIsLocal scope
               then [''bash'', ''-c'', g (Content c)]
               else [''ssh'', ''-o'', ''StrictHostKeyChecking=no'',
                     user @ ''@'' @ GetHostForContent cluster (Content c) [], g (Content c)])))
   \<and> (\<exists>commands.
      GenerateSSHCommandList user cluster scope (HostString h) = Inr commands
      \<and> map Host commands = filter (\<lambda>x. \<not> hostSkipped cluster scope x) (Hostnames cluster)
      \<and> (\<forall>c\<in>set commands.
            Command c =
              (if Host c = GetHostForContent cluster (- 1) [] \<or> scopeIsLocal scope
               then [''bash'', ''-c'', h (Host c)]
               else [''ssh'', ''-o'', ''StrictHostKeyChecking=no'',
                     user @ ''@'' @ Host c, h (Host c)])))"
proof (rule conjI)
  let ?gen = "\<lambda>content.
      ConstructSSHCommand user
        (GetHostForContent cluster content [] = GetHostForContent cluster (- 1) []
         \<or> scopeIsLocal scope)
        (GetHostForContent cluster content []) (g content)"
  have eq: "GenerateSSHCommandList user cluster scope (ContentString g) =
      GenerateCommandList cluster scope (ContentArgv ?gen)"
    by (simp add: GenerateSSHCommandList_def Let_def)
  have "\<forall>c\<in>set (ContentIDs cluster).
      \<not> (c = - 1 \<and> scopeExcludesCoordinator scope) \<longrightarrow> ?gen c \<noteq> []"
    by (simp add: ConstructSSHCommand_nonempty)
  from contentLoop_total [OF this, of "[]"] obtain commands where
    c: "GenerateCommandList cluster scope (ContentArgv ?gen) = Inr commands"
    by (auto simp add: GenerateCommandList_def)
  from GenerateCommandList_ContentArgv_Inr [OF c] eq c
  show "\<exists>commands.
      GenerateSSHCommandList user cluster scope (ContentString g) = Inr commands
      \<and> map Content commands =
          filter (\<lambda>c. \<not> (c = - 1 \<and> scopeExcludesCoordinator scope)) (ContentIDs cluster)
      \<and> (\<forall>c\<in>set commands.
            Command c =
              (if GetHostForContent cluster (Content c) [] = GetHostForContent cluster (- 1) []
                  \<or> scopeIsLocal scope
               then [''bash'', ''-c'', g (Content c)]
               else [''ssh'', ''-o'', ''StrictHostKeyChecking=no'',
                     user @ ''@'' @ GetHostForContent cluster (Content c) [], g (Content c)]))"
    by (simp add: ConstructSSHCommand_def)
next
  let ?gen = "\<lambda>host.
      ConstructSSHCommand user
        (host = GetHostForContent cluster (- 1) [] \<or> scopeIsLocal scope) host (h host)"
  have eq: "GenerateSSHCommandList user cluster scope (HostString h) =
      GenerateCommandList cluster scope (HostArgv ?gen)"
    by (simp add: GenerateSSHCommandList_def Let_def)
  have "\<forall>x\<in>set (Hostnames cluster). \<not> hostSkipped cluster scope x \<longrightarrow> ?gen x \<noteq> []"
    by (simp add: ConstructSSHCommand_nonempty)
  from hostLoop_total [OF this, of "[]"] obtain commands where
    c: "GenerateCommandList cluster scope (HostArgv ?gen) = Inr commands"
    by (auto simp add: GenerateCommandList_def)
  from GenerateCommandList_HostArgv_Inr [OF c] eq c
  show "\<exists>commands.
      GenerateSSHCommandList user cluster scope (HostString h) = Inr commands
      \<and> map Host commands = filter (\<lambda>x. \<not> hostSkipped cluster scope x) (Hostnames cluster)
      \<and> (\<forall>c\<in>set commands.
            Command c =
              (if Host c = GetHostForContent cluster (- 1) [] \<or> scopeIsLocal scope
               then [''bash'', ''-c'', h (Host c)]
               else [''ssh'', ''-o'', ''StrictHostKeyChecking=no'',
                     user @ ''@'' @ Host c, h (Host c)]))"
    by (simp add: ConstructSSHCommand_def)
qed

lemma threeNodes_ssh_commands:
  "GenerateSSHCommandList ''gpadmin'' (NewCluster threeNodes) (ON_HOSTS OR INCLUDE_COORDINATOR)
     (HostString (\<lambda>host. ''ls'')) =
   Inr [\<lparr>Scope = 3, Content = - 2, Host = ''coord'', Command = [''bash'', ''-c'', ''ls''],
         CommandString = ''bash -c ls'', Stdout = '''', Stderr = '''', Error = None,
         RetryError = None, Completed = False\<rparr>,
        \<lparr>Scope = 3, Content = - 2, Host = ''seg1'',
         Command = [''ssh'', ''-o'', ''StrictHostKeyChecking=no'', ''gpadmin@seg1'', ''ls''],
         CommandString = ''ssh -o StrictHostKeyChecking=no gpadmin@seg1 ls'', Stdout = '''',
         Stderr = '''', Error = None, RetryError = None, Completed = False\<rparr>]"
  by (simp add: GenerateSSHCommandList_def GenerateCommandList_def threeNodes_Hostnames
      threeNodes_coordinator_host threeNodes_contents scopes_per_host NewShellCommand_def
      ConstructSSHCommand_def scopeIsLocal_def ON_LOCAL_def Let_def)
    (simp add: ON_HOSTS_def INCLUDE_COORDINATOR_def)

theorem GenerateSSHCommandList_wraps_witness:
  "map_sum id (map Command)
     (GenerateSSHCommandList ''gpadmin'' (NewCluster threeNodes) (ON_HOSTS OR INCLUDE_COORDINATOR)
        (HostString (\<lambda>host. ''ls''))) =
   Inr [[''bash'', ''-c'', ''ls''],
        [''ssh'', ''-o'', ''StrictHostKeyChecking=no'', ''gpadmin@seg1'', ''ls'']]"
  using GenerateSSHCommandList_wraps [of "''gpadmin''" "NewCluster threeNodes"
      "ON_HOSTS OR INCLUDE_COORDINATOR" "\<lambda>content. ''ls''" "\<lambda>host. ''ls''"]
    threeNodes_ssh_commands
  by simp

lemma GenerateCommandList_invalid_generator:
  "GenerateCommandList cluster scope OtherValue =
     Inl (Fatal ''Generator function passed to GenerateCommandList had an invalid function header.'')"
  "GenerateCommandList cluster scope (ContentString g) =
     Inl (Fatal ''Generator function passed to GenerateCommandList had an invalid function header.'')"
  "GenerateCommandList cluster scope (HostString h) =
     Inl (Fatal ''Generator function passed to GenerateCommandList had an invalid function header.'')"
  by (simp_all add: GenerateCommandList_def gplogFatal_def)

lemma GenerateSSHCommandList_invalid_generator:
  "GenerateSSHCommandList user cluster scope OtherValue = Inr []"
  "GenerateSSHCommandList user cluster scope (ContentArgv g) = Inr []"
  "GenerateSSHCommandList user cluster scope (HostArgv h) = Inr []"
  by (simp_all add: GenerateSSHCommandList_def)

text \<open>
  C6. \<^verbatim>\<open>GenerateCommandList\<close> stops with the fatal log call for every generator that is
  neither of its two argv-producing shapes, for every cluster and scope (lemma
  \<open>GenerateCommandList_invalid_generator\<close>). \<^verbatim>\<open>GenerateSSHCommandList\<close> does not: for a
  generator that is neither of its two string-producing shapes it returns the empty
  command list and raises nothing (lemma \<open>GenerateSSHCommandList_invalid_generator\<close>).
  The evaluation below is on the three-node cluster, at a value of another type and at
  an argv-producing function passed to the SSH layer, beside the fatal result of
  \<^verbatim>\<open>GenerateCommandList\<close> for the same value.
\<close>

theorem GenerateSSHCommandList_no_fatal:
  "GenerateSSHCommandList ''gpadmin'' (NewCluster threeNodes) ON_SEGMENTS OtherValue = Inr []
   \<and> GenerateSSHCommandList ''gpadmin'' (NewCluster threeNodes) ON_SEGMENTS
       (ContentArgv (\<lambda>content. [''ls''])) = Inr []
   \<and> GenerateCommandList (NewCluster threeNodes) ON_SEGMENTS OtherValue =
       Inl (Fatal ''Generator function passed to GenerateCommandList had an invalid function header.'')"
  by (simp add: GenerateSSHCommandList_def GenerateCommandList_def gplogFatal_def)


section \<open>The executor\<close>

lemma retryErrors_Join:
  "retryErrors (Join [r, Some e]) = retryErrors r @ attemptErrors e"
  by (cases r) (simp_all add: retryErrors_def Join_def List.map_filter_simps)

lemma Join_Some: "Join [r, Some e] \<noteq> None"
  by (cases r) (simp_all add: Join_def List.map_filter_simps)

lemma retryErrors_foldl_Join:
  "retryErrors (foldl (\<lambda>r k. Join [r, Some (AttemptError k (errs k) (texts k))]) r0 ks) =
     retryErrors r0 @ map (\<lambda>k. AttemptError k (errs k) (texts k)) ks"
  by (induction ks arbitrary: r0) (simp_all add: retryErrors_Join)

lemma foldl_Join_None:
  "(foldl (\<lambda>r k. Join [r, Some (AttemptError k (errs k) (texts k))]) None ks = None) = (ks = [])"
proof (cases ks rule: rev_cases)
  case Nil
  then show ?thesis by simp
next
  case (snoc ks' k)
  then show ?thesis by (simp add: Join_Some)
qed

lemma resetCmd_nonempty: "args \<noteq> [] \<Longrightarrow> resetCmd args = Inr args"
  by (cases args) (simp_all add: resetCmd_def)

subsection \<open>The 64-bit counter\<close>

lemma sint_counter:
  "- (2 ^ 63) \<le> k \<Longrightarrow> k < 2 ^ 63 \<Longrightarrow> sint (word_of_int k :: 64 word) = k"
  by (simp add: signed_of_int signed_take_bit_int_eq_self)

lemma sint_bounds: "- (2 ^ 63) \<le> sint (w :: 64 word)" "sint (w :: 64 word) < 2 ^ 63"
  using sint_ge [of w] sint_lt [of w] by simp_all

lemma counter_of_sint: "word_of_int (sint (w :: 64 word)) = w"
  by simp

lemma sint_increment:
  assumes "sint (w :: 64 word) < 2 ^ 63 - 1"
  shows "sint (w + 1) = sint w + 1"
proof -
  have "w + 1 = word_of_int (sint w + 1)"
    by simp
  moreover have "- (2 ^ 63) \<le> sint w + 1" "sint w + 1 < 2 ^ 63"
    using assms sint_bounds(1) [of w] by simp_all
  ultimately show ?thesis
    by (simp only: sint_counter)
qed

lemma counter_eq_iff:
  assumes "- (2 ^ 63) \<le> k" and "k < 2 ^ 63"
  shows "((word_of_int k :: 64 word) = w) = (k = sint w)"
proof
  assume "(word_of_int k :: 64 word) = w"
  then have "sint (word_of_int k :: 64 word) = sint w" by simp
  with assms show "k = sint w" by (simp add: sint_counter)
next
  assume "k = sint w"
  then show "(word_of_int k :: 64 word) = w" by simp
qed

subsection \<open>One goroutine\<close>

text \<open>The state of the loop after the attempts \<open>a, \<dots>, n - 1\<close> have failed and slept.\<close>

lemma retryLoop_failures:
  assumes "Command (loopCommand st) \<noteq> []"
    and "1 \<le> a" and "a \<le> n" and "n \<le> sint maxAttempts"
    and "\<forall>k. a \<le> k \<and> k < n \<longrightarrow> resultErr (run k) = Some (errs k)"
  shows "retryLoop run maxAttempts retrySleep (word_of_int a) st =
     retryLoop run maxAttempts retrySleep (word_of_int n)
       (st\<lparr>loopCommand := (loopCommand st)
              \<lparr>RetryError :=
                 foldl (\<lambda>r k. Join [r, Some (AttemptError k (errs k) (resultStderr (run k)))])
                   (RetryError (loopCommand st)) [a..n - 1]\<rparr>,
            loopOut := (if a < n then resultOut (run (n - 1)) else loopOut st),
            loopErr := (if a < n then resultErr (run (n - 1)) else loopErr st),
            loopStderr := (if a < n then resultStderr (run (n - 1)) else loopStderr st),
            loopTrace := loopTrace st @ concat (map (\<lambda>k. [Invoke k, Sleep retrySleep]) [a..n - 1])\<rparr>)"
  using assms
proof (induction "nat (n - a)" arbitrary: a st)
  case 0
  then have "a = n" by simp
  then show ?case by simp
next
  case (Suc m)
  then have lt: "a < n" by simp
  with Suc.prems have fail: "resultErr (run a) = Some (errs a)" by simp
  have range: "- (2 ^ 63) \<le> a" "a < 2 ^ 63"
    using Suc.prems(2) lt Suc.prems(4) sint_bounds(2) [of maxAttempts] by simp_all
  have sa: "sint (word_of_int a :: 64 word) = a"
    using range by (rule sint_counter)
  have ne: "(word_of_int a :: 64 word) \<noteq> maxAttempts"
    using lt Suc.prems(4) by (simp add: counter_eq_iff [OF range])
  have le: "a \<le> sint maxAttempts"
    using lt Suc.prems(4) by simp
  let ?st2 = "st\<lparr>loopOut := resultOut (run a), loopErr := resultErr (run a),
        loopStderr := resultStderr (run a),
        loopCommand := (loopCommand st)
          \<lparr>RetryError := Join [RetryError (loopCommand st),
              Some (AttemptError a (errs a) (resultStderr (run a)))]\<rparr>,
        loopTrace := loopTrace st @ [Invoke a, Sleep retrySleep]\<rparr>"
  from le Suc.prems(1) fail ne
  have step: "retryLoop run maxAttempts retrySleep (word_of_int a) st =
      retryLoop run maxAttempts retrySleep (word_of_int (a + 1)) ?st2"
    by (subst retryLoop.simps) (simp add: sa resetCmd_nonempty Let_def)
  have m: "m = nat (n - (a + 1))" using Suc.hyps(2) by simp
  have c: "Command (loopCommand ?st2) \<noteq> []" using Suc.prems(1) by simp
  have a1: "1 \<le> a + 1" using Suc.prems(2) by simp
  have le1: "a + 1 \<le> n" using lt by simp
  have f: "\<forall>k. a + 1 \<le> k \<and> k < n \<longrightarrow> resultErr (run k) = Some (errs k)"
    using Suc.prems(5) by simp
  have up: "[a..n - 1] = a # [a + 1..n - 1]"
    using lt by (simp add: upto_rec1)
  show ?case
  proof (cases "a + 1 < n")
    case True
    then show ?thesis
      unfolding step Suc.hyps(1) [OF m c a1 le1 Suc.prems(4) f] up
      using lt by simp
  next
    case False
    with lt have "n - 1 = a" by simp
    with False show ?thesis
      unfolding step Suc.hyps(1) [OF m c a1 le1 Suc.prems(4) f] up
      using lt by simp
  qed
qed

text \<open>Below the largest \<open>maxAttempts\<close> the counter passes it without wrapping: the loop ends.\<close>

lemma retryLoop_returns:
  assumes "sint maxAttempts < 2 ^ 63 - 1" and "Command (loopCommand st) \<noteq> []"
  shows "\<exists>st'. retryLoop run maxAttempts retrySleep a st = Some (Inr st')"
  using assms(2)
proof (induction "nat (sint maxAttempts + 1 - sint a)" arbitrary: a st)
  case 0
  then have "\<not> sint a \<le> sint maxAttempts" by simp
  then show ?case by (subst retryLoop.simps) simp
next
  case (Suc m)
  then have le: "sint a \<le> sint maxAttempts" by simp
  show ?case
  proof (cases "resultErr (run (sint a))")
    case None
    with le Suc.prems show ?thesis
      by (subst retryLoop.simps) (simp add: resetCmd_nonempty Let_def)
  next
    case (Some e)
    let ?st2 = "st\<lparr>loopOut := resultOut (run (sint a)), loopErr := resultErr (run (sint a)),
        loopStderr := resultStderr (run (sint a)),
        loopCommand := (loopCommand st)
          \<lparr>RetryError := Join [RetryError (loopCommand st),
              Some (AttemptError (sint a) e (resultStderr (run (sint a))))]\<rparr>,
        loopTrace := (if a \<noteq> maxAttempts
                      then loopTrace st @ [Invoke (sint a), Sleep retrySleep]
                      else loopTrace st @ [Invoke (sint a)])\<rparr>"
    from le Suc.prems Some
    have step: "retryLoop run maxAttempts retrySleep a st =
        retryLoop run maxAttempts retrySleep (a + 1) ?st2"
      by (subst retryLoop.simps) (simp add: resetCmd_nonempty Let_def)
    have "sint (a + 1) = sint a + 1"
      using le assms(1) by (intro sint_increment) simp
    with Suc.hyps(2) have m: "m = nat (sint maxAttempts + 1 - sint (a + 1))" by simp
    have c: "Command (loopCommand ?st2) \<noteq> []" using Suc.prems by simp
    from Suc.hyps(1) [OF m c] step show ?thesis by simp
  qed
qed

text \<open>A command with an argument vector never panics in the loop, however long it runs.\<close>

lemma retryLoop_no_panic:
  assumes "retryLoop run maxAttempts retrySleep a st = Some y"
  shows "Command (loopCommand st) \<noteq> [] \<longrightarrow> (\<exists>st'. y = Inr st')"
proof (rule retryLoop.raw_induct
    [where P = "\<lambda>run maxAttempts retrySleep a st y.
       Command (loopCommand st) \<noteq> [] \<longrightarrow> (\<exists>st'. y = Inr st')", OF _ assms], goal_cases)
  case (1 retryLoop' run maxAttempts retrySleep a st y)
  note IH = "1"(1) and eq = "1"(2)
  show ?case
  proof
    assume c: "Command (loopCommand st) \<noteq> []"
    show "\<exists>st'. y = Inr st'"
    proof (cases "sint a \<le> sint maxAttempts")
      case False
      with eq show ?thesis by auto
    next
      case True
      show ?thesis
      proof (cases "resultErr (run (sint a))")
        case None
        with True c eq show ?thesis
          by (auto simp add: resetCmd_nonempty Let_def)
      next
        case (Some e)
        with True c eq obtain st2 where
          "retryLoop' run maxAttempts retrySleep (a + 1) st2 = Some y"
          "Command (loopCommand st2) \<noteq> []"
          by (auto simp add: resetCmd_nonempty Let_def)
        with IH show ?thesis by blast
      qed
    qed
  qed
qed

text \<open>
  With the largest \<open>maxAttempts\<close> and attempts that never succeed, the loop is never left.
\<close>

lemma retryLoop_never_returns:
  assumes "retryLoop run maxAttempts retrySleep a st = Some y"
  shows "\<not> (sint maxAttempts = 2 ^ 63 - 1 \<and> Command (loopCommand st) \<noteq> []
            \<and> (\<forall>k. resultErr (run k) \<noteq> None))"
proof (rule retryLoop.raw_induct
    [where P = "\<lambda>run maxAttempts retrySleep a st y.
       \<not> (sint maxAttempts = 2 ^ 63 - 1 \<and> Command (loopCommand st) \<noteq> []
            \<and> (\<forall>k. resultErr (run k) \<noteq> None))", OF _ assms], goal_cases)
  case (1 retryLoop' run maxAttempts retrySleep a st y)
  note IH = "1"(1) and eq = "1"(2)
  show ?case
  proof
    assume h: "sint maxAttempts = 2 ^ 63 - 1 \<and> Command (loopCommand st) \<noteq> []
        \<and> (\<forall>k. resultErr (run k) \<noteq> None)"
    then have le: "sint a \<le> sint maxAttempts"
      using sint_bounds(2) [of a] by simp
    from h obtain e where e: "resultErr (run (sint a)) = Some e"
      by auto
    with le h eq obtain st2 where
      "retryLoop' run maxAttempts retrySleep (a + 1) st2 = Some y"
      "Command (loopCommand st2) \<noteq> []"
      by (auto simp add: resetCmd_nonempty Let_def)
    with IH h show False by blast
  qed
qed

lemma runCommand_returns:
  assumes "sint maxAttempts < 2 ^ 63 - 1" and "Command c \<noteq> []"
  shows "\<exists>r. runCommand run maxAttempts retrySleep c = Some (Inr r)"
proof -
  let ?st = "\<lparr>loopCommand = c, loopOut = '''', loopErr = None, loopStderr = '''', loopTrace = []\<rparr>"
  have "Command (loopCommand ?st) \<noteq> []" using assms(2) by simp
  from retryLoop_returns [OF assms(1) this, of run retrySleep 1]
  show ?thesis by (auto simp add: runCommand_def)
qed

lemma runCommand_no_panic:
  assumes "Command c \<noteq> []"
  shows "runCommand run maxAttempts retrySleep c \<noteq> Some (Inl e)"
proof
  let ?st = "\<lparr>loopCommand = c, loopOut = '''', loopErr = None, loopStderr = '''', loopTrace = []\<rparr>"
  assume "runCommand run maxAttempts retrySleep c = Some (Inl e)"
  then have "retryLoop run maxAttempts retrySleep 1 ?st = Some (Inl e)"
    by (auto simp add: runCommand_def split: option.splits sum.splits)
  from retryLoop_no_panic [OF this] assms show False by simp
qed

lemma runCommand_None:
  assumes "runCommand run maxAttempts retrySleep c = None" and "Command c \<noteq> []"
  shows "sint maxAttempts = 2 ^ 63 - 1"
proof (rule ccontr)
  assume "sint maxAttempts \<noteq> 2 ^ 63 - 1"
  with sint_bounds(2) [of maxAttempts] have "sint maxAttempts < 2 ^ 63 - 1" by simp
  from runCommand_returns [OF this assms(2), of run retrySleep] assms(1) show False by simp
qed

text \<open>
  With \<open>maxAttempts\<close> below one the loop body never runs: the command is completed
  with no invocation, no terminal error and its \<^verbatim>\<open>RetryError\<close> as it was.
\<close>

lemma runCommand_no_attempt:
  "sint maxAttempts < 1 \<Longrightarrow>
     runCommand run maxAttempts retrySleep c =
       Some (Inr (c\<lparr>Stdout := '''', Stderr := '''', Error := None, Completed := True\<rparr>, []))"
  by (simp add: runCommand_def retryLoop.simps)

lemma runCommand_success:
  assumes "Command c \<noteq> []" and "1 \<le> n" and "n \<le> sint maxAttempts"
    and "\<forall>k. 1 \<le> k \<and> k < n \<longrightarrow> resultErr (run k) = Some (errs k)"
    and "resultErr (run n) = None"
  shows "runCommand run maxAttempts retrySleep c =
     Some (Inr (c\<lparr>RetryError :=
              foldl (\<lambda>r k. Join [r, Some (AttemptError k (errs k) (resultStderr (run k)))])
                (RetryError c) [1..n - 1],
            Stdout := resultOut (run n), Stderr := resultStderr (run n),
            Error := None, Completed := True\<rparr>,
          concat (map (\<lambda>k. [Invoke k, Sleep retrySleep]) [1..n - 1]) @ [Invoke n]))"
proof -
  let ?st = "\<lparr>loopCommand = c, loopOut = '''', loopErr = None, loopStderr = '''', loopTrace = []\<rparr>"
  have c: "Command (loopCommand ?st) \<noteq> []" using assms(1) by simp
  have range: "- (2 ^ 63) \<le> n" "n < 2 ^ 63"
    using assms(2,3) sint_bounds(2) [of maxAttempts] by simp_all
  have sn: "sint (word_of_int n :: 64 word) = n"
    using range by (rule sint_counter)
  have one: "(1 :: 64 word) = word_of_int 1" by simp
  show ?thesis
    unfolding runCommand_def one
      retryLoop_failures [OF c order_refl assms(2) assms(3) assms(4)]
    using assms(1,3,5)
    by (subst retryLoop.simps) (simp add: sn resetCmd_nonempty Let_def)
qed

lemma runCommand_exhausted:
  assumes "Command c \<noteq> []" and "1 \<le> sint maxAttempts" and "sint maxAttempts < 2 ^ 63 - 1"
    and "\<forall>k. 1 \<le> k \<and> k \<le> sint maxAttempts \<longrightarrow> resultErr (run k) = Some (errs k)"
  shows "runCommand run maxAttempts retrySleep c =
     Some (Inr (c\<lparr>RetryError :=
              foldl (\<lambda>r k. Join [r, Some (AttemptError k (errs k) (resultStderr (run k)))])
                (RetryError c) [1..sint maxAttempts],
            Stdout := resultOut (run (sint maxAttempts)),
            Stderr := resultStderr (run (sint maxAttempts)),
            Error := Some (errs (sint maxAttempts)), Completed := True\<rparr>,
          concat (map (\<lambda>k. [Invoke k, Sleep retrySleep]) [1..sint maxAttempts - 1])
            @ [Invoke (sint maxAttempts)]))"
proof -
  let ?st = "\<lparr>loopCommand = c, loopOut = '''', loopErr = None, loopStderr = '''', loopTrace = []\<rparr>"
  let ?M = "sint maxAttempts"
  have c: "Command (loopCommand ?st) \<noteq> []" using assms(1) by simp
  have f: "\<forall>k. 1 \<le> k \<and> k < ?M \<longrightarrow> resultErr (run k) = Some (errs k)"
    using assms(4) by simp
  have last: "resultErr (run ?M) = Some (errs ?M)"
    using assms(2,4) by simp
  have up: "[1..?M] = [1..?M - 1] @ [?M]"
    using assms(2) by (simp add: upto_rec2)
  have one: "(1 :: 64 word) = word_of_int 1" by simp
  have next_counter: "sint (maxAttempts + 1) = ?M + 1"
    using assms(3) by (rule sint_increment)
  have stop: "\<And>st. retryLoop run maxAttempts retrySleep (maxAttempts + 1) st = Some (Inr st)"
    by (subst retryLoop.simps) (simp add: next_counter)
  show ?thesis
    unfolding runCommand_def one
      retryLoop_failures [OF c order_refl assms(2) order_refl f] up
    using assms(1) last
    by (subst retryLoop.simps) (simp add: resetCmd_nonempty Let_def stop)
qed

subsection \<open>All goroutines\<close>

lemma collect_Inr:
  "collect rs = Some (Inr xs) \<Longrightarrow> rs = map (\<lambda>x. Some (Inr x)) xs"
  by (induction rs arbitrary: xs) (auto split: option.splits sum.splits)

lemma collect_Inl:
  "collect rs = Some (Inl e) \<Longrightarrow> Some (Inl e) \<in> set rs"
  by (induction rs) (auto split: option.splits sum.splits)

lemma collect_None:
  "collect rs = None \<Longrightarrow> None \<in> set rs"
  by (induction rs) (auto split: option.splits sum.splits)

lemma collect_all_Inr:
  "collect (map (\<lambda>x. Some (Inr x)) xs) = Some (Inr xs)"
  by (induction xs) simp_all

lemma Commands_NewRemoteOutput: "Commands (NewRemoteOutput scope numErrors commands) = commands"
  by (simp add: NewRemoteOutput_def split: prod.splits)

lemma runAll_Inr:
  assumes "runAll runs maxAttempts retrySleep commandList = Some (Inr rs)"
  shows "length rs = length commandList"
    and "\<forall>j<length commandList.
      runCommand (runs j) maxAttempts retrySleep (commandList ! j) = Some (Inr (rs ! j))"
proof -
  from assms have eq: "map (\<lambda>index. runCommand (runs index) maxAttempts retrySleep (commandList ! index))
      [0..<length commandList] = map (\<lambda>x. Some (Inr x)) rs"
    unfolding runAll_def by (rule collect_Inr)
  then have "length (map (\<lambda>index. runCommand (runs index) maxAttempts retrySleep (commandList ! index))
      [0..<length commandList]) = length (map (\<lambda>x. Some (Inr x)) rs)"
    by simp
  then show len: "length rs = length commandList" by simp
  show "\<forall>j<length commandList.
      runCommand (runs j) maxAttempts retrySleep (commandList ! j) = Some (Inr (rs ! j))"
  proof (intro allI impI)
    fix j
    assume j: "j < length commandList"
    from eq have "map (\<lambda>index. runCommand (runs index) maxAttempts retrySleep (commandList ! index))
        [0..<length commandList] ! j = map (\<lambda>x. Some (Inr x)) rs ! j"
      by simp
    with j len show "runCommand (runs j) maxAttempts retrySleep (commandList ! j) = Some (Inr (rs ! j))"
      by simp
  qed
qed

lemma runAll_Inl:
  assumes "runAll runs maxAttempts retrySleep commandList = Some (Inl e)"
  shows "\<exists>j<length commandList.
      runCommand (runs j) maxAttempts retrySleep (commandList ! j) = Some (Inl e)"
proof -
  from assms have "Some (Inl e) \<in> set (map (\<lambda>index.
      runCommand (runs index) maxAttempts retrySleep (commandList ! index)) [0..<length commandList])"
    unfolding runAll_def by (rule collect_Inl)
  then show ?thesis by auto
qed

lemma runAll_None:
  assumes "runAll runs maxAttempts retrySleep commandList = None"
  shows "\<exists>j<length commandList.
      runCommand (runs j) maxAttempts retrySleep (commandList ! j) = None"
proof -
  from assms have "None \<in> set (map (\<lambda>index.
      runCommand (runs index) maxAttempts retrySleep (commandList ! index)) [0..<length commandList])"
    unfolding runAll_def by (rule collect_None)
  then show ?thesis by auto
qed

text \<open>
  What the call makes of the slot of one command whose goroutine finishes, when no
  command of the list has an empty argument vector: the call returns with that slot in
  the report, unless \<open>maxAttempts\<close> is the largest \<^verbatim>\<open>int\<close> and some goroutine never ends.
\<close>

lemma Execute_slot:
  assumes "\<forall>c\<in>set commandList. Command c \<noteq> []"
    and "i < length commandList"
    and "runCommand (runs i) maxAttempts retrySleep (commandList ! i) = Some (Inr (c', tr))"
  shows "case ExecuteClusterCommandWithRetries runs scope commandList maxAttempts retrySleep of
      None \<Rightarrow>
        sint maxAttempts = 2 ^ 63 - 1
        \<and> (\<exists>j<length commandList.
              runCommand (runs j) maxAttempts retrySleep (commandList ! j) = None)
    | Some r \<Rightarrow>
        (\<exists>output traces. r = Inr (output, traces)
           \<and> length (Commands output) = length commandList
           \<and> length traces = length commandList
           \<and> Commands output ! i = c' \<and> traces ! i = tr)"
proof (cases "runAll runs maxAttempts retrySleep commandList")
  case None
  from runAll_None [OF None] obtain j where j: "j < length commandList"
    "runCommand (runs j) maxAttempts retrySleep (commandList ! j) = None"
    by blast
  with assms(1) have "sint maxAttempts = 2 ^ 63 - 1"
    using runCommand_None [of "runs j" maxAttempts retrySleep "commandList ! j"] by simp
  with j None show ?thesis
    by (auto simp add: ExecuteClusterCommandWithRetries_def)
next
  case (Some r)
  show ?thesis
  proof (cases r)
    case (Inl e)
    with Some runAll_Inl [of runs maxAttempts retrySleep commandList e] obtain j where
      "j < length commandList"
      "runCommand (runs j) maxAttempts retrySleep (commandList ! j) = Some (Inl e)"
      by blast
    with assms(1) runCommand_no_panic [of "commandList ! j" "runs j" maxAttempts retrySleep e]
    show ?thesis by simp
  next
    case (Inr rs)
    with Some have rs: "runAll runs maxAttempts retrySleep commandList = Some (Inr rs)" by simp
    from runAll_Inr [OF rs] assms(2,3) have "length rs = length commandList" "rs ! i = (c', tr)"
      by auto
    with rs assms(2) show ?thesis
      by (simp add: ExecuteClusterCommandWithRetries_def Commands_NewRemoteOutput)
  qed
qed

lemma Execute_returns:
  assumes "\<forall>c\<in>set commandList. Command c \<noteq> []" and "sint maxAttempts < 2 ^ 63 - 1"
  shows "\<exists>output traces.
      ExecuteClusterCommandWithRetries runs scope commandList maxAttempts retrySleep
        = Some (Inr (output, traces))"
proof -
  have "\<forall>j<length commandList. \<exists>r.
      runCommand (runs j) maxAttempts retrySleep (commandList ! j) = Some (Inr r)"
    using assms runCommand_returns by simp
  then have "map (\<lambda>index. runCommand (runs index) maxAttempts retrySleep (commandList ! index))
      [0..<length commandList] =
    map (\<lambda>x. Some (Inr x))
      (map (\<lambda>index. projr (the (runCommand (runs index) maxAttempts retrySleep (commandList ! index))))
        [0..<length commandList])"
    by auto
  then have "\<exists>rs. map (\<lambda>index. runCommand (runs index) maxAttempts retrySleep (commandList ! index))
      [0..<length commandList] = map (\<lambda>x. Some (Inr x)) rs"
    by (rule exI)
  then obtain rs where "runAll runs maxAttempts retrySleep commandList = Some (Inr rs)"
    by (auto simp add: runAll_def collect_all_Inr)
  then show ?thesis
    by (simp add: ExecuteClusterCommandWithRetries_def)
qed

subsection \<open>A command that succeeds after failed attempts\<close>

text \<open>
  C2, as amended. Let every command of the list have a non-empty argv, and let the
  command at index \<open>i\<close> enter with a nil \<^verbatim>\<open>RetryError\<close> (as every command made by
  \<^verbatim>\<open>NewShellCommand\<close> does). Let its invocation fail on the attempts \<open>1, \<dots>, n - 1\<close> and
  succeed on attempt \<open>n\<close>, where \<open>1 \<le> n \<le> maxAttempts\<close>. Then the goroutine of the
  command finishes: the command it writes back has a nil terminal \<^verbatim>\<open>Error\<close>, is
  completed, and its \<^verbatim>\<open>RetryError\<close> holds exactly the \<open>n - 1\<close> errors of the failed
  attempts, each wrapped with its attempt number and the standard error text of that
  attempt; the \<^verbatim>\<open>RetryError\<close> is nil when \<open>n = 1\<close> and non-nil otherwise. The goroutine
  invokes the process \<open>n\<close> times, sleeping after each failed attempt, and does nothing
  after the successful one. \<^verbatim>\<open>ExecuteClusterCommandWithRetries\<close> returns a report with
  this command at index \<open>i\<close>; the one case in which it does not return is that
  \<open>maxAttempts\<close> is the largest \<^verbatim>\<open>int\<close> and the goroutine of another command never ends.
\<close>

theorem Execute_succeeds_on_attempt:
  assumes "\<forall>c\<in>set commandList. Command c \<noteq> []"
    and "i < length commandList"
    and "RetryError (commandList ! i) = None"
    and "1 \<le> n" and "n \<le> sint maxAttempts"
    and "\<forall>k. 1 \<le> k \<and> k < n \<longrightarrow> resultErr (runs i k) = Some (errs k)"
    and "resultErr (runs i n) = None"
  shows "(\<exists>c' tr.
        runCommand (runs i) maxAttempts retrySleep (commandList ! i) = Some (Inr (c', tr))
        \<and> Error c' = None \<and> Completed c'
        \<and> retryErrors (RetryError c') =
            map (\<lambda>k. AttemptError k (errs k) (resultStderr (runs i k))) [1..n - 1]
        \<and> tr = concat (map (\<lambda>k. [Invoke k, Sleep retrySleep]) [1..n - 1]) @ [Invoke n])
     \<and> (case ExecuteClusterCommandWithRetries runs scope commandList maxAttempts retrySleep of
          None \<Rightarrow>
            sint maxAttempts = 2 ^ 63 - 1
            \<and> (\<exists>j<length commandList.
                  runCommand (runs j) maxAttempts retrySleep (commandList ! j) = None)
        | Some r \<Rightarrow>
            (\<exists>output traces. r = Inr (output, traces)
              \<and> length (Commands output) = length commandList
              \<and> Error (Commands output ! i) = None
              \<and> Completed (Commands output ! i)
              \<and> retryErrors (RetryError (Commands output ! i)) =
                  map (\<lambda>k. AttemptError k (errs k) (resultStderr (runs i k))) [1..n - 1]
              \<and> int (length (retryErrors (RetryError (Commands output ! i)))) = n - 1
              \<and> (RetryError (Commands output ! i) = None) = (n = 1)
              \<and> traces ! i =
                  concat (map (\<lambda>k. [Invoke k, Sleep retrySleep]) [1..n - 1]) @ [Invoke n]))
     \<and> (sint maxAttempts < 2 ^ 63 - 1 \<longrightarrow>
          (\<exists>output traces.
              ExecuteClusterCommandWithRetries runs scope commandList maxAttempts retrySleep
                = Some (Inr (output, traces))))"
proof -
  let ?r = "foldl (\<lambda>r k. Join [r, Some (AttemptError k (errs k) (resultStderr (runs i k)))])
      None [1..n - 1]"
  let ?c = "(commandList ! i)\<lparr>RetryError := ?r,
      Stdout := resultOut (runs i n), Stderr := resultStderr (runs i n),
      Error := None, Completed := True\<rparr>"
  let ?tr = "concat (map (\<lambda>k. [Invoke k, Sleep retrySleep]) [1..n - 1]) @ [Invoke n]"
  have c: "Command (commandList ! i) \<noteq> []"
    using assms(1,2) by simp
  from runCommand_success [OF c assms(4) assms(5) assms(6) assms(7), of retrySleep] assms(3)
  have run: "runCommand (runs i) maxAttempts retrySleep (commandList ! i) = Some (Inr (?c, ?tr))"
    by simp
  have leaves: "retryErrors ?r =
      map (\<lambda>k. AttemptError k (errs k) (resultStderr (runs i k))) [1..n - 1]"
    by (simp add: retryErrors_foldl_Join) (simp add: retryErrors_def)
  have len: "int (length (retryErrors ?r)) = n - 1"
    unfolding leaves using assms(4) by simp
  have nil: "(?r = None) = (n = 1)"
    using assms(4) by (simp add: foldl_Join_None) auto
  have goroutine: "\<exists>c' tr.
        runCommand (runs i) maxAttempts retrySleep (commandList ! i) = Some (Inr (c', tr))
        \<and> Error c' = None \<and> Completed c'
        \<and> retryErrors (RetryError c') =
            map (\<lambda>k. AttemptError k (errs k) (resultStderr (runs i k))) [1..n - 1]
        \<and> tr = concat (map (\<lambda>k. [Invoke k, Sleep retrySleep]) [1..n - 1]) @ [Invoke n]"
    using run leaves by simp
  from assms(1) assms(2) run
  have slot: "case ExecuteClusterCommandWithRetries runs scope commandList maxAttempts retrySleep of
      None \<Rightarrow>
        sint maxAttempts = 2 ^ 63 - 1
        \<and> (\<exists>j<length commandList.
              runCommand (runs j) maxAttempts retrySleep (commandList ! j) = None)
    | Some r \<Rightarrow>
        (\<exists>output traces. r = Inr (output, traces)
           \<and> length (Commands output) = length commandList
           \<and> length traces = length commandList
           \<and> Commands output ! i = ?c \<and> traces ! i = ?tr)"
    by (rule Execute_slot)
  have report: "case ExecuteClusterCommandWithRetries runs scope commandList maxAttempts retrySleep of
          None \<Rightarrow>
            sint maxAttempts = 2 ^ 63 - 1
            \<and> (\<exists>j<length commandList.
                  runCommand (runs j) maxAttempts retrySleep (commandList ! j) = None)
        | Some r \<Rightarrow>
            (\<exists>output traces. r = Inr (output, traces)
              \<and> length (Commands output) = length commandList
              \<and> Error (Commands output ! i) = None
              \<and> Completed (Commands output ! i)
              \<and> retryErrors (RetryError (Commands output ! i)) =
                  map (\<lambda>k. AttemptError k (errs k) (resultStderr (runs i k))) [1..n - 1]
              \<and> int (length (retryErrors (RetryError (Commands output ! i)))) = n - 1
              \<and> (RetryError (Commands output ! i) = None) = (n = 1)
              \<and> traces ! i =
                  concat (map (\<lambda>k. [Invoke k, Sleep retrySleep]) [1..n - 1]) @ [Invoke n])"
  proof (cases "ExecuteClusterCommandWithRetries runs scope commandList maxAttempts retrySleep")
    case None
    with slot show ?thesis by simp
  next
    case (Some r)
    with slot obtain rep traces where "r = Inr (rep, traces)"
      "length (Commands rep) = length commandList"
      "Commands rep ! i = ?c" "traces ! i = ?tr"
      by auto
    with Some leaves len nil show ?thesis
      by simp
  qed
  have returns: "sint maxAttempts < 2 ^ 63 - 1 \<longrightarrow>
      (\<exists>output traces.
          ExecuteClusterCommandWithRetries runs scope commandList maxAttempts retrySleep
            = Some (Inr (output, traces)))"
    using assms(1) Execute_returns by blast
  from goroutine report returns show ?thesis
    by (intro conjI)
qed

theorem Execute_succeeds_on_attempt_witness:
  "\<exists>output traces.
      ExecuteClusterCommandWithRetries (\<lambda>i k. if k < 3 then fails else succeeds)
        ON_SEGMENTS [freshCommand] 3 1000 = Some (Inr (output, traces))
      \<and> Error (Commands output ! 0) = None
      \<and> Completed (Commands output ! 0)
      \<and> retryErrors (RetryError (Commands output ! 0)) =
          [AttemptError 1 (ExecError ''exit status 1'') ''no route to host'',
           AttemptError 2 (ExecError ''exit status 1'') ''no route to host'']
      \<and> traces ! 0 = [Invoke 1, Sleep 1000, Invoke 2, Sleep 1000, Invoke 3]"
  using Execute_succeeds_on_attempt [of "[freshCommand]" 0 3 3
      "\<lambda>i k. if k < 3 then fails else succeeds" "\<lambda>k. ExecError ''exit status 1''"
      1000 ON_SEGMENTS]
  by (auto simp add: freshCommand_def fails_def succeeds_def upto.simps)

text \<open>
  C2 as stated fails for \<open>N = 1\<close>, the case of \<^verbatim>\<open>ExecuteClusterCommand\<close>: a command
  that succeeds on its first attempt has a nil \<^verbatim>\<open>RetryError\<close>, not a non-empty one.
\<close>

theorem Execute_first_attempt_success_no_retry_error:
  "map_option (map_sum id (map RetryError \<circ> Commands \<circ> fst))
     (ExecuteClusterCommandWithRetries (\<lambda>i k. succeeds) ON_SEGMENTS [freshCommand] 1 0)
       = Some (Inr [None])
   \<and> map_option (map_sum id (map Error \<circ> Commands \<circ> fst))
     (ExecuteClusterCommandWithRetries (\<lambda>i k. succeeds) ON_SEGMENTS [freshCommand] 1 0)
       = Some (Inr [None])
   \<and> map_option (map_sum id snd)
     (ExecuteClusterCommandWithRetries (\<lambda>i k. succeeds) ON_SEGMENTS [freshCommand] 1 0)
       = Some (Inr [[Invoke 1]])"
  by (simp add: ExecuteClusterCommandWithRetries_def runAll_def runCommand_def retryLoop.simps
      resetCmd_def freshCommand_def succeeds_def NewRemoteOutput_def classifyCommand_def Let_def)

subsection \<open>A command whose every attempt fails\<close>

text \<open>
  C3, as amended. Let every command of the list have a non-empty argv, let the command
  at index \<open>i\<close> enter with a nil \<^verbatim>\<open>RetryError\<close>, and let \<open>maxAttempts\<close> be at least one
  and below \<open>2^63 - 1\<close>. If every attempt of the command fails, then
  \<^verbatim>\<open>ExecuteClusterCommandWithRetries\<close> returns, and in its report the command is
  completed, its terminal \<^verbatim>\<open>Error\<close> is the error of the last attempt, and its
  \<^verbatim>\<open>RetryError\<close> holds exactly the \<open>maxAttempts\<close> wrapped errors of the attempts. The
  goroutine sleeps after every attempt but the last: its events are invocation and sleep
  for the attempts before \<open>maxAttempts\<close>, then the last invocation.
\<close>

theorem Execute_every_attempt_fails:
  assumes "\<forall>c\<in>set commandList. Command c \<noteq> []"
    and "i < length commandList"
    and "RetryError (commandList ! i) = None"
    and "1 \<le> sint maxAttempts" and "sint maxAttempts < 2 ^ 63 - 1"
    and "\<forall>k. 1 \<le> k \<and> k \<le> sint maxAttempts \<longrightarrow> resultErr (runs i k) = Some (errs k)"
  shows "\<exists>output traces.
      ExecuteClusterCommandWithRetries runs scope commandList maxAttempts retrySleep
        = Some (Inr (output, traces))
      \<and> length (Commands output) = length commandList
      \<and> Completed (Commands output ! i)
      \<and> Error (Commands output ! i) = Some (errs (sint maxAttempts))
      \<and> retryErrors (RetryError (Commands output ! i)) =
          map (\<lambda>k. AttemptError k (errs k) (resultStderr (runs i k))) [1..sint maxAttempts]
      \<and> int (length (retryErrors (RetryError (Commands output ! i)))) = sint maxAttempts
      \<and> traces ! i =
          concat (map (\<lambda>k. [Invoke k, Sleep retrySleep]) [1..sint maxAttempts - 1])
            @ [Invoke (sint maxAttempts)]"
proof -
  let ?M = "sint maxAttempts"
  let ?r = "foldl (\<lambda>r k. Join [r, Some (AttemptError k (errs k) (resultStderr (runs i k)))])
      None [1..?M]"
  let ?c = "(commandList ! i)\<lparr>RetryError := ?r,
      Stdout := resultOut (runs i ?M), Stderr := resultStderr (runs i ?M),
      Error := Some (errs ?M), Completed := True\<rparr>"
  let ?tr = "concat (map (\<lambda>k. [Invoke k, Sleep retrySleep]) [1..?M - 1]) @ [Invoke ?M]"
  have c: "Command (commandList ! i) \<noteq> []"
    using assms(1,2) by simp
  from runCommand_exhausted [OF c assms(4) assms(5) assms(6), of retrySleep] assms(3)
  have run: "runCommand (runs i) maxAttempts retrySleep (commandList ! i) = Some (Inr (?c, ?tr))"
    by simp
  have leaves: "retryErrors ?r =
      map (\<lambda>k. AttemptError k (errs k) (resultStderr (runs i k))) [1..?M]"
    by (simp add: retryErrors_foldl_Join) (simp add: retryErrors_def)
  have len: "int (length (retryErrors ?r)) = ?M"
    unfolding leaves using assms(4) by simp
  from assms(1) assms(5) obtain rep traces where
    ret: "ExecuteClusterCommandWithRetries runs scope commandList maxAttempts retrySleep
        = Some (Inr (rep, traces))"
    using Execute_returns by blast
  from assms(1) assms(2) run
  have "case ExecuteClusterCommandWithRetries runs scope commandList maxAttempts retrySleep of
      None \<Rightarrow>
        sint maxAttempts = 2 ^ 63 - 1
        \<and> (\<exists>j<length commandList.
              runCommand (runs j) maxAttempts retrySleep (commandList ! j) = None)
    | Some r \<Rightarrow>
        (\<exists>output traces. r = Inr (output, traces)
           \<and> length (Commands output) = length commandList
           \<and> length traces = length commandList
           \<and> Commands output ! i = ?c \<and> traces ! i = ?tr)"
    by (rule Execute_slot)
  with ret have "length (Commands rep) = length commandList"
    "Commands rep ! i = ?c" "traces ! i = ?tr"
    by simp_all
  with ret leaves len show ?thesis
    by simp
qed

theorem Execute_every_attempt_fails_witness:
  "\<exists>output traces.
      ExecuteClusterCommandWithRetries (\<lambda>i k. fails) ON_SEGMENTS [freshCommand] 2 1000
        = Some (Inr (output, traces))
      \<and> Completed (Commands output ! 0)
      \<and> Error (Commands output ! 0) = Some (ExecError ''exit status 1'')
      \<and> retryErrors (RetryError (Commands output ! 0)) =
          [AttemptError 1 (ExecError ''exit status 1'') ''no route to host'',
           AttemptError 2 (ExecError ''exit status 1'') ''no route to host'']
      \<and> traces ! 0 = [Invoke 1, Sleep 1000, Invoke 2]"
  using Execute_every_attempt_fails [of "[freshCommand]" 0 2 "\<lambda>i k. fails"
      "\<lambda>k. ExecError ''exit status 1''" ON_SEGMENTS 1000]
  by (simp add: freshCommand_def fails_def upto.simps) blast

text \<open>
  The command \<open>failedCommand\<close> is what a first run with one attempt, which fails, leaves
  in the caller's list.
\<close>

lemma first_run_leaves_failedCommand:
  "ExecuteClusterCommandWithRetries (\<lambda>i k. fails) ON_SEGMENTS [freshCommand] 1 1000 =
     Some (Inr (NewRemoteOutput ON_SEGMENTS 1 [failedCommand], [[Invoke 1]]))"
  by (simp add: ExecuteClusterCommandWithRetries_def runAll_def runCommand_def retryLoop.simps
      resetCmd_def freshCommand_def failedCommand_def fails_def Let_def Join_def
      List.map_filter_simps)

lemma largest_maxAttempts: "sint (9223372036854775807 :: 64 word) = 2 ^ 63 - 1"
  by simp

lemma failing_forever:
  "runCommand (\<lambda>k. fails) 9223372036854775807 1000 freshCommand = None"
proof (cases "retryLoop (\<lambda>k. fails) 9223372036854775807 1000 1
    \<lparr>loopCommand = freshCommand, loopOut = '''', loopErr = None, loopStderr = '''',
     loopTrace = []\<rparr>")
  case None
  then show ?thesis by (simp add: runCommand_def)
next
  case (Some y)
  from retryLoop_never_returns [OF Some] largest_maxAttempts show ?thesis
    by (simp add: freshCommand_def fails_def)
qed

text \<open>
  C3 as stated, for every command and every \<open>maxAttempts\<close>, fails at three inputs. A
  command that a first run left with one wrapped error, run again with one attempt, has
  two wrapped errors and not one. With \<open>maxAttempts = 0\<close> no attempt is made and the
  command is completed with a nil terminal \<^verbatim>\<open>Error\<close>. With \<open>maxAttempts = 2^63 - 1\<close> the
  counter wraps around and the call never returns.
\<close>

theorem Execute_every_attempt_fails_refuted:
  "map_option (map_sum id (map (retryErrors \<circ> RetryError) \<circ> Commands \<circ> fst))
     (ExecuteClusterCommandWithRetries (\<lambda>i k. fails) ON_SEGMENTS [failedCommand] 1 1000) =
     Some (Inr [[AttemptError 1 (ExecError ''exit status 1'') ''no route to host'',
                 AttemptError 1 (ExecError ''exit status 1'') ''no route to host'']])
   \<and> map_option (map_sum id (map Error \<circ> Commands \<circ> fst))
     (ExecuteClusterCommandWithRetries (\<lambda>i k. fails) ON_SEGMENTS [freshCommand] 0 1000) =
     Some (Inr [None])
   \<and> ExecuteClusterCommandWithRetries (\<lambda>i k. fails) ON_SEGMENTS [freshCommand]
       9223372036854775807 1000 = None"
proof (intro conjI)
  show "map_option (map_sum id (map (retryErrors \<circ> RetryError) \<circ> Commands \<circ> fst))
     (ExecuteClusterCommandWithRetries (\<lambda>i k. fails) ON_SEGMENTS [failedCommand] 1 1000) =
     Some (Inr [[AttemptError 1 (ExecError ''exit status 1'') ''no route to host'',
                 AttemptError 1 (ExecError ''exit status 1'') ''no route to host'']])"
    by (simp add: ExecuteClusterCommandWithRetries_def runAll_def runCommand_def retryLoop.simps
        resetCmd_def failedCommand_def fails_def Let_def Join_def List.map_filter_simps
        Commands_NewRemoteOutput retryErrors_def)
next
  show "map_option (map_sum id (map Error \<circ> Commands \<circ> fst))
     (ExecuteClusterCommandWithRetries (\<lambda>i k. fails) ON_SEGMENTS [freshCommand] 0 1000) =
     Some (Inr [None])"
    by (simp add: ExecuteClusterCommandWithRetries_def runAll_def runCommand_def retryLoop.simps
        freshCommand_def Commands_NewRemoteOutput)
next
  show "ExecuteClusterCommandWithRetries (\<lambda>i k. fails) ON_SEGMENTS [freshCommand]
       9223372036854775807 1000 = None"
    by (simp add: ExecuteClusterCommandWithRetries_def runAll_def failing_forever)
qed

section \<open>Reading the topology dump\<close>

lemma decimal_Some_digits:
  "decimal ds n = Some m \<Longrightarrow> list_all (\<lambda>d. digitValue d \<noteq> None) ds"
  by (induction ds arbitrary: n) (auto split: option.splits)

lemma Atoi_Some_isNumeric: "Atoi s = Some n \<Longrightarrow> isNumeric s"
  by (cases s)
    (auto simp add: Atoi_def isNumeric_def Let_def split: if_splits option.splits
      dest: decimal_Some_digits)

lemma parseLine_field_count:
  "length (Fields line) \<noteq> 9 \<Longrightarrow> length (Fields line) \<noteq> 10 \<Longrightarrow>
     parseLine line = Inl (UnexpectedFields (length (Fields line)) line)"
  by (simp add: parseLine_def Let_def)

lemma parseLine_Inr:
  "parseLine line = Inr s \<Longrightarrow>
     (length (Fields line) = 10 \<and> DataDir s = Fields line ! 9
      \<or> length (Fields line) = 9 \<and> DataDir s = '''')
     \<and> Atoi (Fields line ! 0) = Some (DbID s)
     \<and> Atoi (Fields line ! 1) = Some (ContentID s)
     \<and> Atoi (Fields line ! 6) = Some (Port s)"
  by (auto simp add: parseLine_def Let_def split: if_splits option.splits)

lemma parseLine_Inl:
  "parseLine line = Inl e \<Longrightarrow>
     e = UnexpectedFields (length (Fields line)) line
       \<and> length (Fields line) \<noteq> 9 \<and> length (Fields line) \<noteq> 10
     \<or> e = BadDbID (Fields line ! 0) \<and> Atoi (Fields line ! 0) = None
     \<or> e = BadContent (Fields line ! 1) \<and> Atoi (Fields line ! 1) = None
     \<or> e = BadPort (Fields line ! 6) \<and> Atoi (Fields line ! 6) = None"
  by (auto simp add: parseLine_def Let_def split: if_splits option.splits)

lemma parseLine_total:
  "length (Fields line) = 9 \<or> length (Fields line) = 10 \<Longrightarrow>
   Atoi (Fields line ! 0) \<noteq> None \<Longrightarrow> Atoi (Fields line ! 1) \<noteq> None \<Longrightarrow>
   Atoi (Fields line ! 6) \<noteq> None \<Longrightarrow> \<exists>s. parseLine line = Inr s"
  by (auto simp add: parseLine_def Let_def)

lemma scanLoop_Inr:
  "scanLoop lines acc = Inr results \<Longrightarrow>
     \<exists>new. results = acc @ new \<and> length new = length lines
       \<and> (\<forall>i<length lines. parseLine (lines ! i) = Inr (new ! i))"
proof (induction lines arbitrary: acc)
  case Nil
  then show ?case by simp
next
  case (Cons line rest)
  from Cons.prems obtain s where
    s: "parseLine line = Inr s" and r: "scanLoop rest (acc @ [s]) = Inr results"
    by (auto split: sum.splits)
  from Cons.IH [OF r] obtain new where
    new: "results = (acc @ [s]) @ new" "length new = length rest"
      "\<forall>i<length rest. parseLine (rest ! i) = Inr (new ! i)"
    by blast
  have "\<forall>i<length (line # rest). parseLine ((line # rest) ! i) = Inr ((s # new) ! i)"
  proof (intro allI impI)
    fix i
    assume "i < length (line # rest)"
    then show "parseLine ((line # rest) ! i) = Inr ((s # new) ! i)"
      using s new(3) by (cases i) simp_all
  qed
  with new show ?case
    by (intro exI [of _ "s # new"]) simp
qed

lemma scanLoop_Inl:
  "scanLoop lines acc = Inl e \<Longrightarrow>
     \<exists>i<length lines. (\<forall>j<i. \<exists>s. parseLine (lines ! j) = Inr s) \<and> parseLine (lines ! i) = Inl e"
proof (induction lines arbitrary: acc)
  case Nil
  then show ?case by simp
next
  case (Cons line rest)
  show ?case
  proof (cases "parseLine line")
    case (Inl e')
    with Cons.prems have "e' = e" by simp
    with Inl show ?thesis by (intro exI [of _ 0]) simp
  next
    case (Inr s)
    with Cons.prems have "scanLoop rest (acc @ [s]) = Inl e" by simp
    from Cons.IH [OF this] obtain i where
      i: "i < length rest" "\<forall>j<i. \<exists>s. parseLine (rest ! j) = Inr s" "parseLine (rest ! i) = Inl e"
      by blast
    have "\<forall>j<Suc i. \<exists>s. parseLine ((line # rest) ! j) = Inr s"
    proof (intro allI impI)
      fix j
      assume "j < Suc i"
      then show "\<exists>s. parseLine ((line # rest) ! j) = Inr s"
        using Inr i(2) by (cases j) simp_all
    qed
    with i show ?thesis by (intro exI [of _ "Suc i"]) simp
  qed
qed

lemma scanLoop_total:
  "\<forall>line\<in>set lines. \<exists>s. parseLine line = Inr s \<Longrightarrow> \<exists>results. scanLoop lines acc = Inr results"
proof (cases "scanLoop lines acc")
  case (Inl e)
  assume ok: "\<forall>line\<in>set lines. \<exists>s. parseLine line = Inr s"
  from scanLoop_Inl [OF Inl] obtain i where "i < length lines" "parseLine (lines ! i) = Inl e"
    by blast
  with ok show ?thesis by (metis nth_mem sum.distinct(1))
next
  case (Inr results)
  then show ?thesis by simp
qed

lemma scanLoop_rejects:
  "line \<in> set lines \<Longrightarrow> parseLine line = Inl e' \<Longrightarrow> \<exists>e. scanLoop lines acc = Inl e"
proof (cases "scanLoop lines acc")
  case (Inl e)
  then show ?thesis by simp
next
  case (Inr results)
  assume mem: "line \<in> set lines" and bad: "parseLine line = Inl e'"
  from mem obtain i where "i < length lines" "lines ! i = line"
    by (auto simp add: in_set_conv_nth)
  with scanLoop_Inr [OF Inr] bad show ?thesis by auto
qed

lemma GetSegmentConfigurationFromFile_scan:
  assumes "\<not> trimmedEmpty dir"
    and "openDump (pathJoin dir ''gpsegconfig_dump'') = Inr (lines, None)"
  shows "GetSegmentConfigurationFromFile pathJoin openDump dir = scanLoop lines []"
  using assms
  by (cases "scanLoop lines []") (simp_all add: GetSegmentConfigurationFromFile_def Let_def)

text \<open>
  C8. Let the data directory be non-blank, and let the dump file open and be scanned to
  its end as the lines \<open>lines\<close>. Then:
  \<^item> when the call returns records, there is one per line, in order, and for every line
    the record's \<^verbatim>\<open>DataDir\<close> is the tenth field when the line has ten fields and the
    empty string when it has nine, and its id, content and port are the numbers that
    fields 1, 2 and 7 spell;
  \<^item> when the call returns an error, it returns no records, and the error is the one of
    the first line that does not parse: the unexpected field count with the count and
    the line, or the field that is not a number, for the id, the content or the port;
  \<^item> a line with a field count other than nine and ten (eight or eleven, say) makes the
    call return an error, and so does a line whose id, content or port field is not an
    optionally signed string of digits;
  \<^item> when every line has nine or ten fields and numbers for id, content and port, the
    call returns records.
\<close>

theorem GetSegmentConfigurationFromFile_lines:
  assumes "\<not> trimmedEmpty dir"
    and "openDump (pathJoin dir ''gpsegconfig_dump'') = Inr (lines, None)"
  shows "(case GetSegmentConfigurationFromFile pathJoin openDump dir of
        Inr results \<Rightarrow>
          length results = length lines
          \<and> (\<forall>i<length lines.
                (length (Fields (lines ! i)) = 10 \<and> DataDir (results ! i) = Fields (lines ! i) ! 9
                 \<or> length (Fields (lines ! i)) = 9 \<and> DataDir (results ! i) = '''')
                \<and> Atoi (Fields (lines ! i) ! 0) = Some (DbID (results ! i))
                \<and> Atoi (Fields (lines ! i) ! 1) = Some (ContentID (results ! i))
                \<and> Atoi (Fields (lines ! i) ! 6) = Some (Port (results ! i)))
      | Inl e \<Rightarrow>
          (\<exists>i<length lines.
              (\<forall>j<i. \<exists>s. parseLine (lines ! j) = Inr s)
              \<and> (e = UnexpectedFields (length (Fields (lines ! i))) (lines ! i)
                    \<and> length (Fields (lines ! i)) \<noteq> 9 \<and> length (Fields (lines ! i)) \<noteq> 10
                  \<or> e = BadDbID (Fields (lines ! i) ! 0) \<and> Atoi (Fields (lines ! i) ! 0) = None
                  \<or> e = BadContent (Fields (lines ! i) ! 1) \<and> Atoi (Fields (lines ! i) ! 1) = None
                  \<or> e = BadPort (Fields (lines ! i) ! 6) \<and> Atoi (Fields (lines ! i) ! 6) = None)))
     \<and> ((\<exists>line\<in>set lines. length (Fields line) \<noteq> 9 \<and> length (Fields line) \<noteq> 10) \<longrightarrow>
          (\<exists>e. GetSegmentConfigurationFromFile pathJoin openDump dir = Inl e))
     \<and> ((\<exists>line\<in>set lines. (length (Fields line) = 9 \<or> length (Fields line) = 10)
            \<and> (\<not> isNumeric (Fields line ! 0) \<or> \<not> isNumeric (Fields line ! 1)
                \<or> \<not> isNumeric (Fields line ! 6))) \<longrightarrow>
          (\<exists>e. GetSegmentConfigurationFromFile pathJoin openDump dir = Inl e))
     \<and> ((\<forall>line\<in>set lines. (length (Fields line) = 9 \<or> length (Fields line) = 10)
            \<and> Atoi (Fields line ! 0) \<noteq> None \<and> Atoi (Fields line ! 1) \<noteq> None
            \<and> Atoi (Fields line ! 6) \<noteq> None) \<longrightarrow>
          (\<exists>results. GetSegmentConfigurationFromFile pathJoin openDump dir = Inr results))"
proof -
  have eq: "GetSegmentConfigurationFromFile pathJoin openDump dir = scanLoop lines []"
    using assms by (rule GetSegmentConfigurationFromFile_scan)
  have outcome: "case scanLoop lines [] of
        Inr results \<Rightarrow>
          length results = length lines
          \<and> (\<forall>i<length lines.
                (length (Fields (lines ! i)) = 10 \<and> DataDir (results ! i) = Fields (lines ! i) ! 9
                 \<or> length (Fields (lines ! i)) = 9 \<and> DataDir (results ! i) = '''')
                \<and> Atoi (Fields (lines ! i) ! 0) = Some (DbID (results ! i))
                \<and> Atoi (Fields (lines ! i) ! 1) = Some (ContentID (results ! i))
                \<and> Atoi (Fields (lines ! i) ! 6) = Some (Port (results ! i)))
      | Inl e \<Rightarrow>
          (\<exists>i<length lines.
              (\<forall>j<i. \<exists>s. parseLine (lines ! j) = Inr s)
              \<and> (e = UnexpectedFields (length (Fields (lines ! i))) (lines ! i)
                    \<and> length (Fields (lines ! i)) \<noteq> 9 \<and> length (Fields (lines ! i)) \<noteq> 10
                  \<or> e = BadDbID (Fields (lines ! i) ! 0) \<and> Atoi (Fields (lines ! i) ! 0) = None
                  \<or> e = BadContent (Fields (lines ! i) ! 1) \<and> Atoi (Fields (lines ! i) ! 1) = None
                  \<or> e = BadPort (Fields (lines ! i) ! 6) \<and> Atoi (Fields (lines ! i) ! 6) = None))"
  proof (cases "scanLoop lines []")
    case (Inl e)
    from scanLoop_Inl [OF Inl] obtain i where
      i: "i < length lines" "\<forall>j<i. \<exists>s. parseLine (lines ! j) = Inr s"
        "parseLine (lines ! i) = Inl e"
      by blast
    from parseLine_Inl [OF i(3)] i(1,2) Inl show ?thesis
      by auto
  next
    case (Inr results)
    from scanLoop_Inr [OF Inr] have len: "length results = length lines"
      and each: "\<forall>i<length lines. parseLine (lines ! i) = Inr (results ! i)"
      by auto
    have "\<forall>i<length lines.
        (length (Fields (lines ! i)) = 10 \<and> DataDir (results ! i) = Fields (lines ! i) ! 9
         \<or> length (Fields (lines ! i)) = 9 \<and> DataDir (results ! i) = '''')
        \<and> Atoi (Fields (lines ! i) ! 0) = Some (DbID (results ! i))
        \<and> Atoi (Fields (lines ! i) ! 1) = Some (ContentID (results ! i))
        \<and> Atoi (Fields (lines ! i) ! 6) = Some (Port (results ! i))"
    proof (intro allI impI)
      fix i
      assume "i < length lines"
      with each have "parseLine (lines ! i) = Inr (results ! i)" by simp
      then show "(length (Fields (lines ! i)) = 10 \<and> DataDir (results ! i) = Fields (lines ! i) ! 9
           \<or> length (Fields (lines ! i)) = 9 \<and> DataDir (results ! i) = '''')
          \<and> Atoi (Fields (lines ! i) ! 0) = Some (DbID (results ! i))
          \<and> Atoi (Fields (lines ! i) ! 1) = Some (ContentID (results ! i))
          \<and> Atoi (Fields (lines ! i) ! 6) = Some (Port (results ! i))"
        by (rule parseLine_Inr)
    qed
    with len Inr show ?thesis by simp
  qed
  have count: "(\<exists>line\<in>set lines. length (Fields line) \<noteq> 9 \<and> length (Fields line) \<noteq> 10) \<longrightarrow>
      (\<exists>e. scanLoop lines [] = Inl e)"
    using parseLine_field_count scanLoop_rejects by blast
  have numeric: "(\<exists>line\<in>set lines. (length (Fields line) = 9 \<or> length (Fields line) = 10)
        \<and> (\<not> isNumeric (Fields line ! 0) \<or> \<not> isNumeric (Fields line ! 1)
            \<or> \<not> isNumeric (Fields line ! 6))) \<longrightarrow>
      (\<exists>e. scanLoop lines [] = Inl e)"
  proof
    assume "\<exists>line\<in>set lines. (length (Fields line) = 9 \<or> length (Fields line) = 10)
        \<and> (\<not> isNumeric (Fields line ! 0) \<or> \<not> isNumeric (Fields line ! 1)
            \<or> \<not> isNumeric (Fields line ! 6))"
    then obtain line where line: "line \<in> set lines"
      and bad: "\<not> isNumeric (Fields line ! 0) \<or> \<not> isNumeric (Fields line ! 1)
            \<or> \<not> isNumeric (Fields line ! 6)"
      by blast
    have "\<exists>e. parseLine line = Inl e"
    proof (cases "parseLine line")
      case (Inl e)
      then show ?thesis by simp
    next
      case (Inr s)
      from parseLine_Inr [OF Inr] bad show ?thesis
        by (auto dest: Atoi_Some_isNumeric)
    qed
    with line show "\<exists>e. scanLoop lines [] = Inl e"
      using scanLoop_rejects by blast
  qed
  have good: "(\<forall>line\<in>set lines. (length (Fields line) = 9 \<or> length (Fields line) = 10)
        \<and> Atoi (Fields line ! 0) \<noteq> None \<and> Atoi (Fields line ! 1) \<noteq> None
        \<and> Atoi (Fields line ! 6) \<noteq> None) \<longrightarrow>
      (\<exists>results. scanLoop lines [] = Inr results)"
  proof
    assume "\<forall>line\<in>set lines. (length (Fields line) = 9 \<or> length (Fields line) = 10)
        \<and> Atoi (Fields line ! 0) \<noteq> None \<and> Atoi (Fields line ! 1) \<noteq> None
        \<and> Atoi (Fields line ! 6) \<noteq> None"
    then have "\<forall>line\<in>set lines. \<exists>s. parseLine line = Inr s"
      using parseLine_total by blast
    then show "\<exists>results. scanLoop lines [] = Inr results"
      by (rule scanLoop_total)
  qed
  from outcome count numeric good show ?thesis
    unfolding eq by (intro conjI)
qed

lemma example_fields:
  "Fields ''1 -1 p p n u 6000 localhost localhost /data/qddir'' =
     [''1'', ''-1'', ''p'', ''p'', ''n'', ''u'', ''6000'', ''localhost'', ''localhost'', ''/data/qddir'']"
  "Fields ''2 0 p p n u 6002 localhost localhost'' =
     [''2'', ''0'', ''p'', ''p'', ''n'', ''u'', ''6002'', ''localhost'', ''localhost'']"
  "Fields ''2 0 p p n u 6002 localhost'' =
     [''2'', ''0'', ''p'', ''p'', ''n'', ''u'', ''6002'', ''localhost'']"
  "Fields ''1 -1 p p n u 6000 localhost localhost /data/qddir extra'' =
     [''1'', ''-1'', ''p'', ''p'', ''n'', ''u'', ''6000'', ''localhost'', ''localhost'', ''/data/qddir'',
      ''extra'']"
  "Fields ''1 -1 p p n u port localhost localhost /data/qddir'' =
     [''1'', ''-1'', ''p'', ''p'', ''n'', ''u'', ''port'', ''localhost'', ''localhost'', ''/data/qddir'']"
  "Fields ''/data/qddir'' = [''/data/qddir'']"
  by (simp_all add: Fields_def asciiSpace_def)

lemma example_numbers:
  "Atoi ''1'' = Some 1" "Atoi ''-1'' = Some (- 1)" "Atoi ''2'' = Some 2" "Atoi ''0'' = Some 0"
  "Atoi ''6000'' = Some 6000" "Atoi ''6002'' = Some 6002" "\<not> isNumeric ''port''"
  by (simp_all add: Atoi_def digitValue_def isNumeric_def)

lemma example_dump:
  "dumpWith lines (slashJoin ''/data/qddir'' ''gpsegconfig_dump'') = Inr (lines, None)"
  "\<not> trimmedEmpty ''/data/qddir''"
  by (simp_all add: dumpWith_def slashJoin_def trimmedEmpty_def example_fields)

lemma example_records:
  "GetSegmentConfigurationFromFile slashJoin
     (dumpWith [''1 -1 p p n u 6000 localhost localhost /data/qddir'',
                ''2 0 p p n u 6002 localhost localhost'']) ''/data/qddir'' =
   Inr [\<lparr>DbID = 1, ContentID = - 1, Role = ''p'', PreferredRole = ''p'', Mode = ''n'',
          Status = ''u'', Port = 6000, Hostname = ''localhost'', Address = ''localhost'',
          DataDir = ''/data/qddir''\<rparr>,
        \<lparr>DbID = 2, ContentID = 0, Role = ''p'', PreferredRole = ''p'', Mode = ''n'',
          Status = ''u'', Port = 6002, Hostname = ''localhost'', Address = ''localhost'',
          DataDir = ''''\<rparr>]"
  by (simp add: GetSegmentConfigurationFromFile_def example_dump parseLine_def example_fields
      example_numbers Let_def)

theorem GetSegmentConfigurationFromFile_lines_witness:
  "(\<exists>results.
      GetSegmentConfigurationFromFile slashJoin
        (dumpWith [''1 -1 p p n u 6000 localhost localhost /data/qddir'',
                   ''2 0 p p n u 6002 localhost localhost'']) ''/data/qddir'' = Inr results
      \<and> DataDir (results ! 0) = ''/data/qddir'' \<and> DataDir (results ! 1) = '''')
   \<and> (\<exists>e. GetSegmentConfigurationFromFile slashJoin
        (dumpWith [''2 0 p p n u 6002 localhost'']) ''/data/qddir'' = Inl e)
   \<and> (\<exists>e. GetSegmentConfigurationFromFile slashJoin
        (dumpWith [''1 -1 p p n u 6000 localhost localhost /data/qddir extra'']) ''/data/qddir''
          = Inl e)
   \<and> (\<exists>e. GetSegmentConfigurationFromFile slashJoin
        (dumpWith [''1 -1 p p n u port localhost localhost /data/qddir'']) ''/data/qddir'' = Inl e)"
  using
    GetSegmentConfigurationFromFile_lines [where dir = "''/data/qddir''" and pathJoin = slashJoin
      and openDump = "dumpWith
        [''1 -1 p p n u 6000 localhost localhost /data/qddir'',
           ''2 0 p p n u 6002 localhost localhost'']"
      and lines = "[''1 -1 p p n u 6000 localhost localhost /data/qddir'',
           ''2 0 p p n u 6002 localhost localhost'']"]
    GetSegmentConfigurationFromFile_lines [where dir = "''/data/qddir''" and pathJoin = slashJoin
      and openDump = "dumpWith
        [''2 0 p p n u 6002 localhost'']"
      and lines = "[''2 0 p p n u 6002 localhost'']"]
    GetSegmentConfigurationFromFile_lines [where dir = "''/data/qddir''" and pathJoin = slashJoin
      and openDump = "dumpWith
        [''1 -1 p p n u 6000 localhost localhost /data/qddir extra'']"
      and lines = "[''1 -1 p p n u 6000 localhost localhost /data/qddir extra'']"]
    GetSegmentConfigurationFromFile_lines [where dir = "''/data/qddir''" and pathJoin = slashJoin
      and openDump = "dumpWith
        [''1 -1 p p n u port localhost localhost /data/qddir'']"
      and lines = "[''1 -1 p p n u port localhost localhost /data/qddir'']"]
    example_records
  by (simp add: example_dump example_fields example_numbers)

end
